theory Spec2Isabelle
  imports Complex_Main "HOL-Library.Log_Nat" "HOL-Library.Word"
begin

section \<open>JavaScript values\<close>

text \<open>
  The node is TypeScript; the values it handles are JavaScript numbers, strings and
  plain objects. \<open>Fin r\<close> is the finite number of value \<open>r\<close> (the two zeros are one
  value); the three non-finite numbers are values of their own. The numbers of JavaScript
  are the IEEE doubles, the \<open>r\<close> that rounding leaves alone (\<open>is_double\<close> below), and
  whatever computes a number rounds the exact result to the nearest double (\<open>fl\<close>).
  Copying a number and testing it do not look at that. \<open>undefined\<close> is \<open>JUndefined\<close>
  where it is the value of a property, and elsewhere the absence of a value (\<open>None\<close>, or
  a key that an object does not have). An object is an association list in insertion order.
\<close>

datatype jsnum = Fin rat | NaN | PosInf | NegInf

datatype jsval =
    JUndefined
  | JNull
  | JBool bool
  | JNum jsnum
  | JStr string
  | JArr "jsval list"
  | JObj "(string \<times> jsval) list"

type_synonym obj = "(string \<times> jsval) list"

text \<open>Truthiness (ToBoolean) of a number and of a string.\<close>

fun truthy_num :: "jsnum \<Rightarrow> bool" where
  "truthy_num (Fin r) = (r \<noteq> 0)"
| "truthy_num NaN = False"
| "truthy_num PosInf = True"
| "truthy_num NegInf = True"

definition truthy_str :: "string \<Rightarrow> bool" where
  "truthy_str s = (s \<noteq> [])"

text \<open>\<open>x || undefined\<close> on an optional field: a falsy value counts as no value.\<close>

definition truthy_num_opt :: "jsnum option \<Rightarrow> jsnum option" where
  "truthy_num_opt v = (case v of None \<Rightarrow> None | Some n \<Rightarrow> if truthy_num n then Some n else None)"

definition truthy_str_opt :: "string option \<Rightarrow> string option" where
  "truthy_str_opt v = (case v of None \<Rightarrow> None | Some s \<Rightarrow> if truthy_str s then Some s else None)"

text \<open>Property assignment \<open>o[k] = v\<close>: an existing key keeps its place, a new one goes last.\<close>

fun obj_set :: "string \<Rightarrow> jsval \<Rightarrow> obj \<Rightarrow> obj" where
  "obj_set k v [] = [(k, v)]"
| "obj_set k v ((k', v') # ps) = (if k' = k then (k, v) # ps else (k', v') # obj_set k v ps)"

definition obj_get :: "obj \<Rightarrow> string \<Rightarrow> jsval option" where
  "obj_get ob k = map_of ob k"

subsection \<open>Rounding to a double\<close>

text \<open>\<open>b\<close> to an integer power, by repeated squaring.\<close>

function pow_int :: "rat \<Rightarrow> int \<Rightarrow> rat" where
  "pow_int b e =
     (if e \<le> 0 then 1
      else if even e then pow_int (b * b) (e div 2)
      else b * pow_int (b * b) (e div 2))"
  by pat_completeness auto
termination
  by (relation "measure (\<lambda>(b, e). nat e)") auto

declare pow_int.simps [simp del]

definition ipow :: "rat \<Rightarrow> int \<Rightarrow> rat" where
  "ipow b e = (if 0 \<le> e then pow_int b e else 1 / pow_int b (- e))"

text \<open>The binary exponent of a positive rational: \<open>2\<^sup>e \<le> r < 2\<^sup>e\<^sup>+\<^sup>1\<close>.\<close>

definition ilog2 :: "rat \<Rightarrow> int" where
  "ilog2 r =
     (let (a, b) = quotient_of r;
          e = bitlen a - bitlen b
      in if ipow 2 e \<le> r then e else e - 1)"

text \<open>The nearest integer, the even one of two.\<close>

definition round_even :: "rat \<Rightarrow> int" where
  "round_even r =
     (let n = \<lfloor>r\<rfloor>;
          d = r - of_int n
      in if d < 1 / 2 then n else if 1 / 2 < d then n + 1 else if even n then n else n + 1)"

text \<open>
  IEEE 754 binary64, round to nearest, ties to even: the doubles around \<open>r\<close> are the
  multiples of \<open>2\<^sup>e\<^sup>-\<^sup>5\<^sup>2\<close>, where \<open>e\<close> is the exponent of \<open>r\<close> and at least -1022
  (below that the doubles are subnormal); a result beyond the largest double,
  \<open>(2\<^sup>5\<^sup>3 - 1) * 2\<^sup>9\<^sup>7\<^sup>1\<close>, is infinite.
\<close>

definition max_double :: rat where
  "max_double = 179769313486231570814527423731704356798070567525844996598917476803157260780028538760589558632766878171540458953514382464234321326889464182768467546703537516986049910576551282076245490090389328944075868508455133942304583236903222948165808559332123348274797826204144723168738177180919299881250404026184124858368"

definition fl :: "rat \<Rightarrow> jsnum" where
  "fl r =
     (if r = 0 then Fin 0
      else let e = max (ilog2 \<bar>r\<bar>) (- 1022);
               q = ipow 2 (e - 52);
               y = of_int (round_even (r / q)) * q
           in if max_double < \<bar>y\<bar> then (if r < 0 then NegInf else PosInf) else Fin y)"

definition is_double :: "rat \<Rightarrow> bool" where
  "is_double r = (fl r = Fin r)"

subsection \<open>Numbers as text\<close>

definition digit_char :: "nat \<Rightarrow> char" where
  "digit_char d = ''0123456789'' ! d"

fun showNat :: "nat \<Rightarrow> string" where
  "showNat n = (if n < 10 then [digit_char n] else showNat (n div 10) @ [digit_char (n mod 10)])"

declare showNat.simps [simp del]

text \<open>The last \<open>k\<close> decimal digits of \<open>n\<close>, with leading zeros.\<close>

fun padDigits :: "nat \<Rightarrow> nat \<Rightarrow> string" where
  "padDigits 0 n = []"
| "padDigits (Suc k) n = padDigits k (n div 10) @ [digit_char (n mod 10)]"

text \<open>The number of decimal digits of a positive integer.\<close>

function ndigits :: "int \<Rightarrow> int" where
  "ndigits n = (if n \<le> 0 then 0 else 1 + ndigits (n div 10))"
  by pat_completeness auto
termination
  by (relation "measure nat") auto

declare ndigits.simps [simp del]

text \<open>The decimal exponent of a positive rational: \<open>10\<^sup>e \<le> x < 10\<^sup>e\<^sup>+\<^sup>1\<close>.\<close>

definition ilog10 :: "rat \<Rightarrow> int" where
  "ilog10 x = (if 1 \<le> x then ndigits \<lfloor>x\<rfloor> - 1 else - ndigits (\<lceil>1 / x\<rceil> - 1))"

text \<open>
  Number::toString (ECMA-262, radix 10), as string concatenation and template literals
  apply it to a positive double \<open>x\<close>: integers \<open>n\<close>, \<open>k\<close> and \<open>s\<close> with \<open>k\<close> as
  small as possible such that \<open>s\<close> has \<open>k\<close> digits and \<open>s * 10\<^sup>n\<^sup>-\<^sup>k\<close> is a decimal
  that reads back as \<open>x\<close>; of several \<open>s\<close> the one whose decimal is nearest to \<open>x\<close>.

  \<open>shortest_at x n k\<close> looks for \<open>s\<close> with \<open>k\<close> digits, where \<open>10\<^sup>n\<^sup>-\<^sup>1 \<le> x < 10\<^sup>n\<close>: the
  two multiples of \<open>10\<^sup>n\<^sup>-\<^sup>k\<close> around \<open>x\<close> are tried, the nearer one first (the even one of
  two as near); the multiple \<open>10\<^sup>n\<close> itself is \<open>s = 10\<^sup>k\<^sup>-\<^sup>1\<close> with \<open>n + 1\<close>.
\<close>

definition shortest_at :: "rat \<Rightarrow> int \<Rightarrow> int \<Rightarrow> (int \<times> int) option" where
  "shortest_at x n k =
     (let u = ipow 10 (n - k);
          lo = \<lfloor>x / u\<rfloor>;
          d = x / u - of_int lo;
          up = (1 / 2 < d \<or> (d = 1 / 2 \<and> odd lo));
          ok = (\<lambda>s. ipow 10 (k - 1) \<le> of_int s \<and> of_int s \<le> ipow 10 k
                     \<and> fl (of_int s * u) = Fin x)
      in case find ok (if up then [lo + 1, lo] else [lo, lo + 1]) of
           None \<Rightarrow> None
         | Some s \<Rightarrow> Some (if of_int s = ipow 10 k then (n + 1, s div 10) else (n, s)))"

text \<open>
  The first \<open>k\<close> of the list that has such an \<open>s\<close>. Seventeen digits are enough for
  every double; after them the nearest decimal of 17 digits is taken without looking.
\<close>

fun digits_from :: "rat \<Rightarrow> int \<Rightarrow> int list \<Rightarrow> int \<times> int \<times> int" where
  "digits_from x n [] = (n, 17, round_even (x / ipow 10 (n - 17)))"
| "digits_from x n (k # ks) =
     (case shortest_at x n k of
        Some (n', s) \<Rightarrow> (n', k, s)
      | None \<Rightarrow> digits_from x n ks)"

definition shortest_digits :: "rat \<Rightarrow> int \<times> int \<times> int" where
  "shortest_digits x = digits_from x (ilog10 x + 1) [1..17]"

text \<open>
  The text for \<open>n\<close>, \<open>k\<close> and \<open>s\<close>: digits and zeros, digits around a point, zeros
  after \<open>0.\<close> and then the digits, or exponent notation (from \<open>10\<^sup>2\<^sup>1\<close> on and below
  \<open>10\<^sup>-\<^sup>6\<close>).
\<close>

definition format_digits :: "int \<Rightarrow> int \<Rightarrow> int \<Rightarrow> string" where
  "format_digits n k s =
     (let ds = showNat (nat s)
      in if k \<le> n \<and> n \<le> 21 then ds @ replicate (nat (n - k)) (CHR ''0'')
         else if 0 < n \<and> n \<le> 21 then take (nat n) ds @ ''.'' @ drop (nat n) ds
         else if - 6 < n \<and> n \<le> 0 then ''0.'' @ replicate (nat (- n)) (CHR ''0'') @ ds
         else (if k = 1 then ds else take 1 ds @ ''.'' @ drop 1 ds) @ ''e'' @
              (if 0 \<le> n - 1 then ''+'' else ''-'') @ showNat (nat \<bar>n - 1\<bar>))"

definition showPos :: "rat \<Rightarrow> string" where
  "showPos x = (case shortest_digits x of (n, k, s) \<Rightarrow> format_digits n k s)"

fun numToString :: "jsnum \<Rightarrow> string" where
  "numToString NaN = ''NaN''"
| "numToString PosInf = ''Infinity''"
| "numToString NegInf = ''-Infinity''"
| "numToString (Fin r) =
     (if r = 0 then ''0'' else if r < 0 then CHR ''-'' # showPos (- r) else showPos r)"

text \<open>
  Number.prototype.toFixed: for a finite number below \<open>10\<^sup>2\<^sup>1\<close> in magnitude the integer
  \<open>q\<close> nearest to \<open>x * 10\<^sup>f\<close> (the larger one of two), printed with a point before its
  last \<open>f\<close> digits; for any other number what Number::toString prints.
\<close>

definition fixed_digits :: "nat \<Rightarrow> rat \<Rightarrow> string" where
  "fixed_digits f x =
     (let q = nat \<lfloor>\<bar>x\<bar> * 10 ^ f + 1 / 2\<rfloor>;
          s = (if x < 0 then ''-'' else '''')
      in s @ showNat (q div 10 ^ f) @
         (if f = 0 then [] else CHR ''.'' # padDigits f (q mod 10 ^ f)))"

fun toFixed :: "nat \<Rightarrow> jsnum \<Rightarrow> string" where
  "toFixed f (Fin x) =
     (if 1000000000000000000000 \<le> \<bar>x\<bar> then numToString (Fin x) else fixed_digits f x)"
| "toFixed f n = numToString n"

definition is_digit :: "char \<Rightarrow> bool" where
  "is_digit c = (c \<in> set ''0123456789'')"

definition is_space :: "char \<Rightarrow> bool" where
  "is_space c = (c \<in> {CHR '' '', CHR 0x09, CHR 0x0A, CHR 0x0B, CHR 0x0C, CHR 0x0D})"

definition digit_val :: "char \<Rightarrow> nat" where
  "digit_val c = of_char c - 48"

definition nat_of_digits :: "string \<Rightarrow> nat" where
  "nat_of_digits ds = foldl (\<lambda>a c. 10 * a + digit_val c) 0 ds"

text \<open>The exponent part of a decimal literal (\<open>e\<close>, a sign, digits), 0 when there is none.\<close>

definition exponent_part :: "string \<Rightarrow> int" where
  "exponent_part r =
     (case r of
        [] \<Rightarrow> 0
      | c # r1 \<Rightarrow>
          if c = CHR ''e'' \<or> c = CHR ''E'' then
            (let neg = (case r1 of [] \<Rightarrow> False | d # _ \<Rightarrow> d = CHR ''-'');
                 r2 = (case r1 of
                         [] \<Rightarrow> []
                       | d # r' \<Rightarrow> if d = CHR ''-'' \<or> d = CHR ''+'' then r' else r1);
                 ds = takeWhile is_digit r2
             in if neg then - int (nat_of_digits ds) else int (nat_of_digits ds))
          else 0)"

text \<open>
  parseFloat: leading white space, a sign, then the word Infinity, or digits, a point,
  digits and an exponent part, read as the double nearest to that decimal; what follows
  is ignored, and a text with neither is \<open>NaN\<close>.
\<close>

definition parseFloat :: "string \<Rightarrow> jsnum" where
  "parseFloat s =
     (let t = dropWhile is_space s;
          neg = (case t of [] \<Rightarrow> False | c # _ \<Rightarrow> c = CHR ''-'');
          u = (case t of [] \<Rightarrow> [] | c # t' \<Rightarrow> if c = CHR ''-'' \<or> c = CHR ''+'' then t' else t);
          ip = takeWhile is_digit u;
          r0 = dropWhile is_digit u;
          pt = (case r0 of [] \<Rightarrow> False | c # _ \<Rightarrow> c = CHR ''.'');
          fp = (if pt then takeWhile is_digit (tl r0) else []);
          r1 = (if pt then dropWhile is_digit (tl r0) else r0);
          m = (of_nat (nat_of_digits ip) + of_nat (nat_of_digits fp) / 10 ^ length fp)
              * ipow 10 (exponent_part r1)
      in if take 8 u = ''Infinity'' then (if neg then NegInf else PosInf)
         else if ip = [] \<and> fp = [] then NaN
         else fl (if neg then - m else m))"

section \<open>Arithmetic on numbers\<close>

text \<open>
  \<open>x < 1\<close>, \<open>x / y\<close>, \<open>1 / x\<close>, \<open>x * 1000\<close>, \<open>Math.round\<close>, \<open>Math.floor\<close>,
  \<open>Math.abs\<close> and unary minus. Quotient and product are the exact ones, rounded.
\<close>

fun num_lt1 :: "jsnum \<Rightarrow> bool" where
  "num_lt1 (Fin r) = (r < 1)"
| "num_lt1 NaN = False"
| "num_lt1 PosInf = False"
| "num_lt1 NegInf = True"

fun num_div :: "jsnum \<Rightarrow> jsnum \<Rightarrow> jsnum" where
  "num_div (Fin a) (Fin b) =
     (if b = 0 then (if a = 0 then NaN else if 0 < a then PosInf else NegInf) else fl (a / b))"
| "num_div (Fin a) PosInf = Fin 0"
| "num_div (Fin a) NegInf = Fin 0"
| "num_div PosInf (Fin b) = (if 0 \<le> b then PosInf else NegInf)"
| "num_div NegInf (Fin b) = (if 0 \<le> b then NegInf else PosInf)"
| "num_div x y = NaN"

definition num_recip :: "jsnum \<Rightarrow> jsnum" where
  "num_recip x = num_div (Fin 1) x"

fun times1000 :: "jsnum \<Rightarrow> jsnum" where
  "times1000 (Fin r) = fl (r * 1000)"
| "times1000 n = n"

fun math_round :: "jsnum \<Rightarrow> jsnum" where
  "math_round (Fin r) = Fin (of_int \<lfloor>r + 1 / 2\<rfloor>)"
| "math_round n = n"

fun math_floor :: "jsnum \<Rightarrow> jsnum" where
  "math_floor (Fin r) = Fin (of_int \<lfloor>r\<rfloor>)"
| "math_floor n = n"

fun math_abs :: "jsnum \<Rightarrow> jsnum" where
  "math_abs (Fin r) = Fin \<bar>r\<bar>"
| "math_abs NaN = NaN"
| "math_abs PosInf = PosInf"
| "math_abs NegInf = PosInf"

fun num_neg :: "jsnum \<Rightarrow> jsnum" where
  "num_neg (Fin r) = Fin (- r)"
| "num_neg NaN = NaN"
| "num_neg PosInf = NegInf"
| "num_neg NegInf = PosInf"

text \<open>\<open>xs[n]\<close> on an array of strings: an element when \<open>n\<close> is an index, else \<open>undefined\<close>.\<close>

fun array_at :: "string list \<Rightarrow> jsnum \<Rightarrow> string option" where
  "array_at xs (Fin r) =
     (if of_int \<lfloor>r\<rfloor> = r \<and> 0 \<le> r \<and> nat \<lfloor>r\<rfloor> < length xs then Some (xs ! nat \<lfloor>r\<rfloor>) else None)"
| "array_at xs n = None"

section \<open>formatFileSize\<close>

definition sizes :: "string list" where
  "sizes = [''Bytes'', ''KB'', ''MB'', ''GB'', ''TB'']"

text \<open>\<open>sizes[i]\<close> inside a string concatenation: past the table it is \<open>undefined\<close>.\<close>

definition sizes_at :: "jsnum \<Rightarrow> string" where
  "sizes_at i = (case array_at sizes i of Some s \<Rightarrow> s | None \<Rightarrow> ''undefined'')"

text \<open>
  \<open>Math.pow(k, i)\<close> with \<open>k = 1024\<close> and an \<open>i\<close> that \<open>Math.floor\<close> returned: a
  power of two, which is a double unless it overflows or underflows.
\<close>

fun pow1024 :: "jsnum \<Rightarrow> jsnum" where
  "pow1024 (Fin i) = fl (ipow 1024 \<lfloor>i\<rfloor>)"
| "pow1024 NaN = NaN"
| "pow1024 PosInf = PosInf"
| "pow1024 NegInf = Fin 0"

text \<open>
  Lines 13 to 21. ECMA-262 leaves the accuracy of \<open>Math.log\<close> to the implementation, so
  the function is a parameter here.
\<close>

definition formatFileSize :: "(jsnum \<Rightarrow> jsnum) \<Rightarrow> nat \<Rightarrow> string" where
  "formatFileSize lg bytes =
     (if bytes = 0 then ''0 Bytes''
      else let i = math_floor (num_div (lg (Fin (of_nat bytes))) (lg (Fin 1024)))
           in numToString (parseFloat (toFixed 2 (num_div (Fin (of_nat bytes)) (pow1024 i))))
              @ '' '' @ sizes_at i)"

text \<open>
  What the specification says of the number printed: the two-decimal text with its
  trailing zeros, and a point left at the end, taken off.
\<close>

definition strip_zeros :: "string \<Rightarrow> string" where
  "strip_zeros s =
     (let t = dropWhile (\<lambda>c. c = CHR ''0'') (rev s)
      in rev (case t of [] \<Rightarrow> [] | c # t' \<Rightarrow> if c = CHR ''.'' then t' else t))"

text \<open>The rounding of \<open>toFixed(2)\<close> as a number of hundredths, and its shortest decimal.\<close>

definition round2 :: "rat \<Rightarrow> nat" where
  "round2 x = nat \<lfloor>x * 100 + 1 / 2\<rfloor>"

definition decimal2 :: "nat \<Rightarrow> string" where
  "decimal2 q =
     showNat (q div 100) @
     (if q mod 100 = 0 then []
      else CHR ''.'' #
        (if q mod 10 = 0 then [digit_char (q mod 100 div 10)]
         else [digit_char (q mod 100 div 10), digit_char (q mod 10)]))"

section \<open>Dates\<close>

text \<open>
  \<open>new Date(v)\<close>: the time value in milliseconds, cut to an integer; none (an invalid
  date) when \<open>v\<close> is not finite or beyond 8.64e15 in magnitude.
\<close>

fun new_Date :: "jsnum \<Rightarrow> int option" where
  "new_Date (Fin r) =
     (if \<bar>r\<bar> > 8640000000000000 then None
      else Some (if 0 \<le> r then \<lfloor>r\<rfloor> else - \<lfloor>- r\<rfloor>))"
| "new_Date n = None"

text \<open>Year, month and day of a day number counted from 1970-01-01 (proleptic Gregorian).\<close>

definition civil_from_days :: "int \<Rightarrow> int \<times> int \<times> int" where
  "civil_from_days days =
     (let z = days + 719468;
          era = z div 146097;
          doe = z mod 146097;
          yoe = (doe - doe div 1460 + doe div 36524 - doe div 146096) div 365;
          y = yoe + era * 400;
          doy = doe - (365 * yoe + yoe div 4 - yoe div 100);
          mp = (5 * doy + 2) div 153;
          d = doy - (153 * mp + 2) div 5 + 1;
          m = (if mp < 10 then mp + 3 else mp - 9)
      in (if m \<le> 2 then y + 1 else y, m, d))"

definition year_string :: "int \<Rightarrow> string" where
  "year_string y =
     (if 0 \<le> y \<and> y \<le> 9999 then padDigits 4 (nat y)
      else (if y < 0 then ''-'' else ''+'') @ padDigits 6 (nat \<bar>y\<bar>))"

text \<open>\<open>Date.prototype.toISOString\<close> of a valid time value: \<open>YYYY-MM-DDTHH:mm:ss.sssZ\<close>.\<close>

definition toISOString :: "int \<Rightarrow> string" where
  "toISOString tv =
     (let ms = tv mod 86400000;
          (y, m, d) = civil_from_days (tv div 86400000)
      in year_string y @ ''-'' @ padDigits 2 (nat m) @ ''-'' @ padDigits 2 (nat d) @ ''T'' @
         padDigits 2 (nat (ms div 3600000)) @ '':'' @
         padDigits 2 (nat (ms div 60000 mod 60)) @ '':'' @
         padDigits 2 (nat (ms div 1000 mod 60)) @ ''.'' @
         padDigits 3 (nat (ms mod 1000)) @ ''Z'')"

section \<open>The decoded structure (types/exif-parser.d.ts)\<close>

record image_size =
  width :: jsnum
  height :: jsnum

text \<open>
  The declared tags, each optional, and \<open>otherTags\<close> for the index signature
  \<open>[key: string]: any\<close>.
\<close>

record exif_tags =
  Make :: "string option"
  Model :: "string option"
  Software :: "string option"
  LensModel :: "string option"
  LensMake :: "string option"
  FocalLength :: "jsnum option"
  ExposureTime :: "jsnum option"
  FNumber :: "jsnum option"
  ISO :: "jsnum option"
  ExposureMode :: "jsnum option"
  Flash :: "jsnum option"
  GPSLatitude :: "jsnum option"
  GPSLongitude :: "jsnum option"
  GPSAltitude :: "jsnum option"
  GPSLatitudeRef :: "string option"
  GPSLongitudeRef :: "string option"
  DateTime :: "jsnum option"
  DateTimeOriginal :: "jsnum option"
  DateTimeDigitized :: "jsnum option"
  otherTags :: obj

text \<open>
  What \<open>parse()\<close> returns. The package exif-parser is not part of this repository:
  its result is an object with seven properties of its own (\<open>startMarker\<close>, \<open>tags\<close>,
  \<open>imageSize\<close>, \<open>thumbnailOffset\<close>, \<open>thumbnailLength\<close>, \<open>thumbnailType\<close>,
  \<open>app1Offset\<close>), each of which may hold \<open>undefined\<close>. \<open>ExifData\<close> declares the two
  that the node reads, both optional.
\<close>

record exif_data =
  imageSize :: "image_size option"
  tags :: "exif_tags option"
  startMarker :: jsval
  thumbnailOffset :: jsval
  thumbnailLength :: jsval
  thumbnailType :: jsval
  app1Offset :: jsval

text \<open>The decoded structure as a value, for \<open>raw: exifData\<close>.\<close>

definition opt_entry :: "string \<Rightarrow> jsval option \<Rightarrow> obj" where
  "opt_entry k v = (case v of None \<Rightarrow> [] | Some x \<Rightarrow> [(k, x)])"

definition str_entry :: "string \<Rightarrow> string option \<Rightarrow> obj" where
  "str_entry k v = opt_entry k (map_option JStr v)"

definition num_entry :: "string \<Rightarrow> jsnum option \<Rightarrow> obj" where
  "num_entry k v = opt_entry k (map_option JNum v)"

definition image_size_value :: "image_size \<Rightarrow> jsval" where
  "image_size_value sz = JObj [(''width'', JNum (width sz)), (''height'', JNum (height sz))]"

definition tags_value :: "exif_tags \<Rightarrow> jsval" where
  "tags_value t = JObj (
     str_entry ''Make'' (Make t) @ str_entry ''Model'' (Model t) @
     str_entry ''Software'' (Software t) @ str_entry ''LensModel'' (LensModel t) @
     str_entry ''LensMake'' (LensMake t) @ num_entry ''FocalLength'' (FocalLength t) @
     num_entry ''ExposureTime'' (ExposureTime t) @ num_entry ''FNumber'' (FNumber t) @
     num_entry ''ISO'' (ISO t) @ num_entry ''ExposureMode'' (ExposureMode t) @
     num_entry ''Flash'' (Flash t) @ num_entry ''GPSLatitude'' (GPSLatitude t) @
     num_entry ''GPSLongitude'' (GPSLongitude t) @ num_entry ''GPSAltitude'' (GPSAltitude t) @
     str_entry ''GPSLatitudeRef'' (GPSLatitudeRef t) @
     str_entry ''GPSLongitudeRef'' (GPSLongitudeRef t) @
     num_entry ''DateTime'' (DateTime t) @ num_entry ''DateTimeOriginal'' (DateTimeOriginal t) @
     num_entry ''DateTimeDigitized'' (DateTimeDigitized t) @ otherTags t)"

definition exif_value :: "exif_data \<Rightarrow> jsval" where
  "exif_value ed = JObj
     [(''startMarker'', startMarker ed),
      (''tags'', case tags ed of None \<Rightarrow> JUndefined | Some t \<Rightarrow> tags_value t),
      (''imageSize'', case imageSize ed of None \<Rightarrow> JUndefined | Some sz \<Rightarrow> image_size_value sz),
      (''thumbnailOffset'', thumbnailOffset ed),
      (''thumbnailLength'', thumbnailLength ed),
      (''thumbnailType'', thumbnailType ed),
      (''app1Offset'', app1Offset ed)]"

section \<open>The host: items, parameters, errors\<close>

record binary_data =
  data :: string
  mimeType :: string
  fileName :: "string option"

record item =
  json :: obj
  binary :: "(string \<times> binary_data) list option"
  pairedItem :: "nat option"

record node_params =
  inputSource :: string
  binaryProperty :: string
  imageUrl :: string
  outputProperty :: string
  includeGps :: bool
  includeImageSize :: bool
  convertTimestamps :: bool

text \<open>An error: its message and, when it has one, its \<open>context\<close> (here \<open>error_context\<close>) with an optional \<open>itemIndex\<close>.\<close>

record err_context =
  itemIndex :: "nat option"

record js_error =
  message :: string
  error_context :: "err_context option"

text \<open>
  \<open>new NodeOperationError(node, message, {itemIndex})\<close>, of the package n8n-workflow,
  which is not part of this repository: an error whose context holds the item index. The
  constructor does not always keep the message it is given (it replaces some that carry
  a common error code), so what it makes of a message is the parameter \<open>f\<close>.
\<close>

definition NodeOperationError :: "(string \<Rightarrow> string) \<Rightarrow> string \<Rightarrow> nat \<Rightarrow> js_error" where
  "NodeOperationError f msg i = \<lparr>message = f msg, error_context = Some \<lparr>itemIndex = Some i\<rparr>\<rparr>"

type_synonym buffer = "8 word list"

text \<open>
  What the JavaScript engine decides: the locale's rendering of a time value, and the
  approximation of the natural logarithm that \<open>Math.log\<close> returns.
\<close>

record js_runtime =
  toLocaleString :: "int \<Rightarrow> string"
  Math_log :: "jsnum \<Rightarrow> jsnum"

text \<open>
  What the node calls and does not define: the parameters of each item, the two ways to
  get the image bytes, the decoder (\<open>ExifParser.create(buffer).parse()\<close>), the
  continue-on-fail setting, the message that the constructor of NodeOperationError
  settles on, and the engine.
\<close>

record env =
  getNodeParameter :: "nat \<Rightarrow> node_params"
  getBinaryDataBuffer :: "nat \<Rightarrow> string \<Rightarrow> js_error + buffer"
  httpRequest :: "string \<Rightarrow> js_error + buffer"
  parse :: "buffer \<Rightarrow> js_error + exif_data"
  continueOnFail :: bool
  errorMessage :: "string \<Rightarrow> string"
  runtime :: js_runtime

section \<open>Structuring the tags (lines 183 to 273)\<close>

definition set_when :: "string \<Rightarrow> jsval option \<Rightarrow> obj \<Rightarrow> obj" where
  "set_when k v ob = (case v of None \<Rightarrow> ob | Some x \<Rightarrow> obj_set k x ob)"

text \<open>\<open>a || b\<close> on optional numbers.\<close>

definition num_or :: "jsnum option \<Rightarrow> jsnum option \<Rightarrow> jsnum option" where
  "num_or a b = (case truthy_num_opt a of Some x \<Rightarrow> Some x | None \<Rightarrow> b)"

text \<open>\<open>x || null\<close>.\<close>

definition num_or_null :: "jsnum option \<Rightarrow> jsval" where
  "num_or_null v = (case truthy_num_opt v of Some n \<Rightarrow> JNum n | None \<Rightarrow> JNull)"

definition str_or_null :: "string option \<Rightarrow> jsval" where
  "str_or_null v = (case truthy_str_opt v of Some s \<Rightarrow> JStr s | None \<Rightarrow> JNull)"

definition camera_group :: "exif_tags \<Rightarrow> obj" where
  "camera_group t =
     set_when ''software'' (map_option JStr (truthy_str_opt (Software t)))
       (set_when ''model'' (map_option JStr (truthy_str_opt (Model t)))
         (set_when ''make'' (map_option JStr (truthy_str_opt (Make t))) []))"

definition lens_group :: "exif_tags \<Rightarrow> obj" where
  "lens_group t =
     set_when ''focalLength''
         (map_option (\<lambda>v. JStr (numToString v @ ''mm'')) (truthy_num_opt (FocalLength t)))
       (set_when ''make'' (map_option JStr (truthy_str_opt (LensMake t)))
         (set_when ''model'' (map_option JStr (truthy_str_opt (LensModel t))) []))"

definition shutterSpeed :: "jsnum \<Rightarrow> string" where
  "shutterSpeed exposure =
     (if num_lt1 exposure then ''1/'' @ numToString (math_round (num_recip exposure))
      else numToString exposure @ ''s'')"

definition exposureModes :: "string list" where
  "exposureModes = [''Auto'', ''Manual'', ''Auto bracket'']"

definition exposure_mode :: "jsnum \<Rightarrow> string" where
  "exposure_mode v =
     (case truthy_str_opt (array_at exposureModes v) of Some s \<Rightarrow> s | None \<Rightarrow> ''Unknown'')"

definition exposure_group :: "exif_tags \<Rightarrow> obj" where
  "exposure_group t =
     set_when ''flash''
         (map_option (\<lambda>v. JStr (if v = Fin 1 then ''Fired'' else ''Did not fire'')) (Flash t))
       (set_when ''mode'' (map_option (\<lambda>v. JStr (exposure_mode v)) (ExposureMode t))
         (set_when ''iso'' (map_option JNum (truthy_num_opt (ISO t)))
           (set_when ''aperture''
               (map_option (\<lambda>v. JStr (''f/'' @ numToString v)) (truthy_num_opt (FNumber t)))
             (set_when ''shutterSpeed''
                 (map_option (\<lambda>v. JStr (shutterSpeed v)) (truthy_num_opt (ExposureTime t)))
               []))))"

text \<open>
  The decimal of a coordinate: set when the copied magnitude and reference are both
  truthy, negative for the reference letter given.
\<close>

definition decimal_entry :: "string \<Rightarrow> jsnum option \<Rightarrow> string option \<Rightarrow> jsval option" where
  "decimal_entry letter mag ref =
     (case (truthy_num_opt mag, truthy_str_opt ref) of
        (Some m, Some r) \<Rightarrow> Some (JNum (if r = letter then num_neg (math_abs m) else math_abs m))
      | _ \<Rightarrow> None)"

definition gps_group :: "exif_tags \<Rightarrow> obj" where
  "gps_group t =
     set_when ''longitudeDecimal''
         (decimal_entry ''W'' (GPSLongitude t) (GPSLongitudeRef t))
       (set_when ''latitudeDecimal''
           (decimal_entry ''S'' (GPSLatitude t) (GPSLatitudeRef t))
         [(''latitude'', num_or_null (GPSLatitude t)),
          (''longitude'', num_or_null (GPSLongitude t)),
          (''altitude'', num_or_null (GPSAltitude t)),
          (''latitudeRef'', str_or_null (GPSLatitudeRef t)),
          (''longitudeRef'', str_or_null (GPSLongitudeRef t))])"

definition gps_wanted :: "node_params \<Rightarrow> exif_tags \<Rightarrow> bool" where
  "gps_wanted p t =
     (includeGps p \<and>
      (truthy_num_opt (GPSLatitude t) \<noteq> None \<or> truthy_num_opt (GPSLongitude t) \<noteq> None))"

definition RangeError :: js_error where
  "RangeError = \<lparr>message = ''Invalid time value'', error_context = None\<rparr>"

text \<open>
  The timestamp: nothing to assign (the field stays \<open>null\<close>), a value to assign, or the
  RangeError that \<open>toISOString\<close> throws on an invalid date.
\<close>

definition timestamp_field :: "js_runtime \<Rightarrow> node_params \<Rightarrow> exif_tags \<Rightarrow> js_error + jsval option" where
  "timestamp_field rt p t =
     (if truthy_num_opt (DateTime t) \<noteq> None \<or> truthy_num_opt (DateTimeOriginal t) \<noteq> None
         \<or> truthy_num_opt (DateTimeDigitized t) \<noteq> None
      then
        (let dateTime = num_or (num_or (DateTimeOriginal t) (DateTime t)) (DateTimeDigitized t)
         in case (if convertTimestamps p then truthy_num_opt dateTime else None) of
              Some dt \<Rightarrow>
                (case new_Date (times1000 dt) of
                   None \<Rightarrow> Inl RangeError
                 | Some tv \<Rightarrow> Inr (Some (JObj
                     [(''original'', JNum dt),
                      (''iso'', JStr (toISOString tv)),
                      (''formatted'', JStr (toLocaleString rt tv))])))
            | None \<Rightarrow> Inr (map_option JNum dateTime))
      else Inr None)"

definition fileInfo_value :: "js_runtime \<Rightarrow> string \<Rightarrow> nat \<Rightarrow> jsval" where
  "fileInfo_value rt name fileSize = JObj
     [(''fileName'', JStr name),
      (''fileSizeBytes'', JNum (Fin (of_nat fileSize))),
      (''fileSizeFormatted'', JStr (formatFileSize (Math_log rt) fileSize))]"

definition structuredExif :: "js_runtime \<Rightarrow> node_params \<Rightarrow> string \<Rightarrow> nat \<Rightarrow> exif_data \<Rightarrow> js_error + obj" where
  "structuredExif rt p name fileSize exifData =
     (let s0 = [(''fileInfo'', fileInfo_value rt name fileSize),
                (''imageSize'', JNull),
                (''camera'', JObj []),
                (''lens'', JObj []),
                (''exposure'', JObj []),
                (''gps'', JNull),
                (''timestamp'', JNull),
                (''raw'', exif_value exifData)];
          s1 = (case (if includeImageSize p then imageSize exifData else None) of
                  Some sz \<Rightarrow> obj_set ''imageSize''
                    (JObj [(''width'', JNum (width sz)), (''height'', JNum (height sz))]) s0
                | None \<Rightarrow> s0)
      in case tags exifData of
           None \<Rightarrow> Inr s1
         | Some t \<Rightarrow>
             (let s2 = obj_set ''camera'' (JObj (camera_group t)) s1;
                  s3 = obj_set ''lens'' (JObj (lens_group t)) s2;
                  s4 = obj_set ''exposure'' (JObj (exposure_group t)) s3;
                  s5 = (if gps_wanted p t then obj_set ''gps'' (JObj (gps_group t)) s4 else s4)
              in case timestamp_field rt p t of
                   Inl err \<Rightarrow> Inl err
                 | Inr None \<Rightarrow> Inr s5
                 | Inr (Some ts) \<Rightarrow> Inr (obj_set ''timestamp'' ts s5)))"

text \<open>Lines 275 to 283: every top-level field that is an object with no key is deleted.\<close>

definition cleanup :: "obj \<Rightarrow> obj" where
  "cleanup ob = filter (\<lambda>(k, v). v \<noteq> JObj []) ob"

text \<open>The two together: the structured metadata of one decoded image.\<close>

definition normalize_exif :: "js_runtime \<Rightarrow> node_params \<Rightarrow> string \<Rightarrow> nat \<Rightarrow> exif_data \<Rightarrow> js_error + obj" where
  "normalize_exif rt p name fileSize exifData =
     (case structuredExif rt p name fileSize exifData of
        Inl err \<Rightarrow> Inl err
      | Inr s \<Rightarrow> Inr (cleanup s))"

section \<open>execute\<close>

definition binaryData_of :: "item \<Rightarrow> string \<Rightarrow> binary_data option" where
  "binaryData_of it prop = (case binary it of None \<Rightarrow> None | Some b \<Rightarrow> map_of b prop)"

definition quote :: string where
  "quote = [CHR 0x22]"

text \<open>Lines 125 to 163: the bytes of the image.\<close>

definition imageBuffer :: "env \<Rightarrow> item list \<Rightarrow> nat \<Rightarrow> js_error + buffer" where
  "imageBuffer e items i =
     (let p = getNodeParameter e i
      in if inputSource p = ''binaryData'' then
           (case binaryData_of (items ! i) (binaryProperty p) of
              None \<Rightarrow> Inl (NodeOperationError (errorMessage e)
                (''No binary data found in property '' @ quote @ binaryProperty p @ quote) i)
            | Some bd \<Rightarrow> getBinaryDataBuffer e i (binaryProperty p))
         else if imageUrl p = [] then
           Inl (NodeOperationError (errorMessage e)
             ''Image URL is required when using URL input source'' i)
         else httpRequest e (imageUrl p))"

text \<open>\<open>imageUrl.split('/').pop()\<close>: what follows the last slash.\<close>

definition last_segment :: "string \<Rightarrow> string" where
  "last_segment s = rev (takeWhile (\<lambda>c. c \<noteq> CHR ''/'') (rev s))"

text \<open>Lines 169 to 180: the file name.\<close>

definition fileName_of :: "env \<Rightarrow> item list \<Rightarrow> nat \<Rightarrow> string" where
  "fileName_of e items i =
     (let p = getNodeParameter e i
      in if inputSource p = ''binaryData'' then
           (case binaryData_of (items ! i) (binaryProperty p) of
              None \<Rightarrow> ''unknown''
            | Some bd \<Rightarrow>
                (case truthy_str_opt (fileName bd) of
                   Some f \<Rightarrow> f
                 | None \<Rightarrow> if truthy_str (data bd) then data bd else ''unknown''))
         else if truthy_str (last_segment (imageUrl p)) then last_segment (imageUrl p)
         else ''downloaded_image'')"

text \<open>The body of the \<open>try\<close> (lines 119 to 294): the output item, or the error thrown.\<close>

definition processItem :: "env \<Rightarrow> item list \<Rightarrow> nat \<Rightarrow> js_error + item" where
  "processItem e items i =
     (let p = getNodeParameter e i
      in case imageBuffer e items i of
           Inl err \<Rightarrow> Inl err
         | Inr buf \<Rightarrow>
            (case parse e buf of
               Inl err \<Rightarrow> Inl err
             | Inr exifData \<Rightarrow>
                (case normalize_exif (runtime e) p (fileName_of e items i) (length buf) exifData of
                   Inl err \<Rightarrow> Inl err
                 | Inr s \<Rightarrow> Inr \<lparr>json = obj_set (outputProperty p) (JObj s) (json (items ! i)),
                               binary = None, pairedItem = None\<rparr>)))"

text \<open>The \<open>catch\<close> (lines 296 to 316).\<close>

definition errorItem :: "item list \<Rightarrow> nat \<Rightarrow> js_error \<Rightarrow> item" where
  "errorItem items i err =
     \<lparr>json = obj_set ''error'' (JStr (message err)) (json (items ! i)),
      binary = binary (items ! i), pairedItem = Some i\<rparr>"

text \<open>
  What the \<open>catch\<close> throws when it does not continue: the error itself with the item
  index written into its context, or a NodeOperationError made from it.
\<close>

definition rethrow :: "env \<Rightarrow> nat \<Rightarrow> js_error \<Rightarrow> js_error" where
  "rethrow e i err =
     (case error_context err of
        Some c \<Rightarrow> err\<lparr>error_context := Some (c\<lparr>itemIndex := Some i\<rparr>)\<rparr>
      | None \<Rightarrow> NodeOperationError (errorMessage e) (message err) i)"

function execute_loop :: "env \<Rightarrow> item list \<Rightarrow> nat \<Rightarrow> item list \<Rightarrow> js_error + item list" where
  "execute_loop e items i returnData =
     (if i < length items then
        (case processItem e items i of
           Inr out \<Rightarrow> execute_loop e items (Suc i) (returnData @ [out])
         | Inl err \<Rightarrow>
             if continueOnFail e
             then execute_loop e items (Suc i) (returnData @ [errorItem items i err])
             else Inl (rethrow e i err))
      else Inr returnData)"
  by pat_completeness auto
termination
  by (relation "measure (\<lambda>(e, items, i, returnData). length items - i)") auto

declare execute_loop.simps [simp del]

definition execute :: "env \<Rightarrow> item list \<Rightarrow> js_error + item list list" where
  "execute e items = (case execute_loop e items 0 [] of Inl err \<Rightarrow> Inl err | Inr r \<Rightarrow> Inr [r])"

section \<open>Notions and inputs used in the statements\<close>

text \<open>A tag dictionary with none of the keys the node looks at, whatever else it holds.\<close>

definition no_recognized_keys :: "exif_tags \<Rightarrow> bool" where
  "no_recognized_keys t =
     (Make t = None \<and> Model t = None \<and> Software t = None \<and> LensModel t = None
      \<and> LensMake t = None \<and> FocalLength t = None \<and> ExposureTime t = None
      \<and> FNumber t = None \<and> ISO t = None \<and> ExposureMode t = None \<and> Flash t = None
      \<and> GPSLatitude t = None \<and> GPSLongitude t = None \<and> GPSAltitude t = None
      \<and> GPSLatitudeRef t = None \<and> GPSLongitudeRef t = None \<and> DateTime t = None
      \<and> DateTimeOriginal t = None \<and> DateTimeDigitized t = None)"

definition no_tags :: exif_tags where
  "no_tags =
     \<lparr>Make = None, Model = None, Software = None, LensModel = None, LensMake = None,
      FocalLength = None, ExposureTime = None, FNumber = None, ISO = None,
      ExposureMode = None, Flash = None, GPSLatitude = None, GPSLongitude = None,
      GPSAltitude = None, GPSLatitudeRef = None, GPSLongitudeRef = None, DateTime = None,
      DateTimeOriginal = None, DateTimeDigitized = None, otherTags = []\<rparr>"

text \<open>The parameters at the defaults the node declares (lines 54 to 108).\<close>

definition default_params :: node_params where
  "default_params =
     \<lparr>inputSource = ''binaryData'', binaryProperty = ''data'', imageUrl = [],
      outputProperty = ''exif'', includeGps = True, includeImageSize = True,
      convertTimestamps = True\<rparr>"

text \<open>
  An engine for the examples: its locale prints the time value itself, and its
  \<open>Math.log\<close> is a table of the natural logarithm at the four byte counts of the
  examples (2, 1024, 1536 and \<open>2\<^sup>5\<^sup>1\<close>), each the double nearest to the decimal given.
\<close>

definition sample_log :: "jsnum \<Rightarrow> jsnum" where
  "sample_log x =
     (if x = Fin 2 then fl (6931471805599453 / 10000000000000000)
      else if x = Fin 1024 then fl (6931471805599453 / 1000000000000000)
      else if x = Fin 1536 then fl (7336936913707618 / 1000000000000000)
      else if x = Fin 2251799813685248 then fl (3535050620855721 / 100000000000000)
      else NaN)"

definition plain_locale :: js_runtime where
  "plain_locale =
     \<lparr>toLocaleString = (\<lambda>tv. numToString (Fin (of_int tv))), Math_log = sample_log\<rparr>"

text \<open>The first truthy value of a priority list.\<close>

fun first_truthy :: "jsnum option list \<Rightarrow> jsnum option" where
  "first_truthy [] = None"
| "first_truthy (None # vs) = first_truthy vs"
| "first_truthy (Some n # vs) = (if truthy_num n then Some n else first_truthy vs)"

text \<open>What one pass of the loop leaves in \<open>returnData\<close> when it does not abort.\<close>

definition item_result :: "env \<Rightarrow> item list \<Rightarrow> nat \<Rightarrow> item" where
  "item_result e items i =
     (case processItem e items i of Inr out \<Rightarrow> out | Inl err \<Rightarrow> errorItem items i err)"

text \<open>The \<open>imageSize\<close> field, and the eight fields in the order the code writes them.\<close>

definition image_field :: "node_params \<Rightarrow> exif_data \<Rightarrow> jsval" where
  "image_field p ed =
     (case (if includeImageSize p then imageSize ed else None) of
        Some sz \<Rightarrow> JObj [(''width'', JNum (width sz)), (''height'', JNum (height sz))]
      | None \<Rightarrow> JNull)"

definition assembled :: "jsval \<Rightarrow> jsval \<Rightarrow> obj \<Rightarrow> obj \<Rightarrow> obj \<Rightarrow> jsval \<Rightarrow> jsval \<Rightarrow> jsval \<Rightarrow> obj" where
  "assembled fi img cam lens ex gps ts raw =
     [(''fileInfo'', fi), (''imageSize'', img), (''camera'', JObj cam), (''lens'', JObj lens),
      (''exposure'', JObj ex), (''gps'', gps), (''timestamp'', ts), (''raw'', raw)]"

text \<open>A decoded image with a size and an empty tag dictionary, and no thumbnail.\<close>

definition sized_image :: exif_data where
  "sized_image =
     \<lparr>imageSize = Some \<lparr>width = Fin 4000, height = Fin 3000\<rparr>, tags = Some no_tags,
      startMarker = JObj [(''offset'', JNum (Fin 2))], thumbnailOffset = JUndefined,
      thumbnailLength = JUndefined, thumbnailType = JUndefined, app1Offset = JNum (Fin 4)\<rparr>"

text \<open>A decoded image with the given tags, and neither a size nor a thumbnail.\<close>

definition tagged :: "exif_tags \<Rightarrow> exif_data" where
  "tagged t =
     \<lparr>imageSize = None, tags = Some t,
      startMarker = JObj [(''offset'', JNum (Fin 2))], thumbnailOffset = JUndefined,
      thumbnailLength = JUndefined, thumbnailType = JUndefined, app1Offset = JNum (Fin 4)\<rparr>"

text \<open>Tag dictionaries with one or a few keys set.\<close>

definition auto_mode_tags :: exif_tags where
  "auto_mode_tags = no_tags\<lparr>ExposureMode := Some (Fin 0)\<rparr>"

text \<open>
  The exposure times 0.005, 2 and 0.15384615384615385 (the double of that decimal, whose
  inverse is 6.5 exactly), and 0.
\<close>

definition fast_shutter_tags :: exif_tags where
  "fast_shutter_tags =
     no_tags\<lparr>ExposureTime := Some (Fin (5764607523034235 / 1152921504606846976))\<rparr>"

definition slow_shutter_tags :: exif_tags where
  "slow_shutter_tags = no_tags\<lparr>ExposureTime := Some (Fin 2)\<rparr>"

definition tie_shutter_tags :: exif_tags where
  "tie_shutter_tags =
     no_tags\<lparr>ExposureTime := Some (Fin (1385722962267845 / 9007199254740992))\<rparr>"

definition zero_exposure_tags :: exif_tags where
  "zero_exposure_tags = no_tags\<lparr>ExposureTime := Some (Fin 0)\<rparr>"

definition southern_tags :: exif_tags where
  "southern_tags = no_tags\<lparr>GPSLatitude := Some (Fin (407 / 10)), GPSLatitudeRef := Some ''S''\<rparr>"

text \<open>A latitude of 0 with its reference, and a longitude west.\<close>

definition equator_tags :: exif_tags where
  "equator_tags =
     no_tags\<lparr>GPSLatitude := Some (Fin 0), GPSLongitude := Some (Fin (- 74)),
       GPSLatitudeRef := Some ''N'', GPSLongitudeRef := Some ''W''\<rparr>"

definition sea_level_tags :: exif_tags where
  "sea_level_tags =
     no_tags\<lparr>GPSLatitude := Some (Fin (407 / 10)), GPSLongitude := Some (Fin (- 74)),
       GPSAltitude := Some (Fin 0)\<rparr>"

definition new_year_tags :: exif_tags where
  "new_year_tags = no_tags\<lparr>DateTimeOriginal := Some (Fin 1609459200)\<rparr>"

definition far_future_tags :: exif_tags where
  "far_future_tags = no_tags\<lparr>DateTime := Some (Fin 10000000000000)\<rparr>"

text \<open>A time with a fraction of a second: 1.001, the double of that decimal.\<close>

definition fraction_tags :: exif_tags where
  "fraction_tags = no_tags\<lparr>DateTime := Some (Fin (2254051613498933 / 2251799813685248))\<rparr>"

definition zero_original_tags :: exif_tags where
  "zero_original_tags =
     no_tags\<lparr>DateTimeOriginal := Some (Fin 0), DateTime := Some (Fin 1609459200)\<rparr>"

definition unconverted :: node_params where
  "unconverted = default_params\<lparr>convertTimestamps := False\<rparr>"

text \<open>The tag value the timestamp is made from: the first truthy one, in priority order.\<close>

definition timestamp_source :: "exif_data \<Rightarrow> jsnum option" where
  "timestamp_source ed =
     (case tags ed of
        None \<Rightarrow> None
      | Some t \<Rightarrow> first_truthy [DateTimeOriginal t, DateTime t, DateTimeDigitized t])"

text \<open>
  A host for trying the loop: every item has the default parameters, the bytes of a
  binary property are two bytes, the decoder finds an empty tag dictionary, no URL
  can be fetched, and the constructor of NodeOperationError keeps the message.
\<close>

definition no_network :: js_error where
  "no_network = \<lparr>message = ''getaddrinfo ENOTFOUND'', error_context = None\<rparr>"

definition example_env :: "bool \<Rightarrow> env" where
  "example_env b =
     \<lparr>getNodeParameter = (\<lambda>i. default_params),
      getBinaryDataBuffer = (\<lambda>i prop. Inr [0xFF, 0xD8]),
      httpRequest = (\<lambda>url. Inl no_network),
      parse = (\<lambda>buf. Inr (tagged no_tags)),
      continueOnFail = b,
      errorMessage = (\<lambda>msg. msg),
      runtime = plain_locale\<rparr>"

definition jpeg_data :: binary_data where
  "jpeg_data = \<lparr>data = ''/9g='', mimeType = ''image/jpeg'', fileName = Some ''photo.jpg''\<rparr>"

text \<open>An item with its image under \<open>data\<close>, and one with its image under another name.\<close>

definition photo_item :: item where
  "photo_item =
     \<lparr>json = [(''id'', JNum (Fin 1))], binary = Some [(''data'', jpeg_data)], pairedItem = None\<rparr>"

definition mislabeled_item :: item where
  "mislabeled_item =
     \<lparr>json = [(''id'', JNum (Fin 2))], binary = Some [(''image'', jpeg_data)], pairedItem = None\<rparr>"

definition no_binary_error :: "nat \<Rightarrow> js_error" where
  "no_binary_error i =
     \<lparr>message = ''No binary data found in property '' @ quote @ ''data'' @ quote,
      error_context = Some \<lparr>itemIndex = Some i\<rparr>\<rparr>"

text \<open>What the example host's decoder leads to for an image of two bytes.\<close>

definition plain_exif :: jsval where
  "plain_exif = JObj
     [(''fileInfo'', fileInfo_value plain_locale ''photo.jpg'' 2), (''imageSize'', JNull),
      (''gps'', JNull), (''timestamp'', JNull), (''raw'', exif_value (tagged no_tags))]"

section \<open>Objects and the cleanup pass\<close>

lemma obj_get_obj_set: "obj_get (obj_set k v ob) k' = (if k' = k then Some v else obj_get ob k')"
  by (induction ob) (auto simp: obj_get_def)

lemma obj_get_set_when:
  "obj_get (set_when k v ob) k' = (if k' = k \<and> v \<noteq> None then v else obj_get ob k')"
  by (cases v) (simp_all add: set_when_def obj_get_obj_set)

lemma obj_get_Nil: "obj_get [] k = None"
  by (simp add: obj_get_def)

lemma obj_get_Cons: "obj_get ((k', v) # ob) k = (if k = k' then Some v else obj_get ob k)"
  by (simp add: obj_get_def)

lemma obj_set_nonempty: "obj_set k v ob \<noteq> []"
  by (cases ob) (auto split: if_splits)

lemma set_when_Nil_iff: "set_when k v ob = [] \<longleftrightarrow> v = None \<and> ob = []"
  by (cases v) (simp_all add: set_when_def obj_set_nonempty)

lemma obj_get_cleanup_absent: "k \<notin> fst ` set ob \<Longrightarrow> obj_get (cleanup ob) k = None"
  by (induction ob) (auto simp: cleanup_def obj_get_def)

lemma obj_get_cleanup:
  "distinct (map fst ob) \<Longrightarrow>
   obj_get (cleanup ob) k =
     (case obj_get ob k of None \<Rightarrow> None | Some v \<Rightarrow> if v = JObj [] then None else Some v)"
proof (induction ob)
  case Nil
  then show ?case by (simp add: cleanup_def obj_get_def)
next
  case (Cons a ob)
  obtain k' v where a: "a = (k', v)" by (cases a)
  from Cons.prems a have k': "k' \<notin> fst ` set ob" and d: "distinct (map fst ob)" by auto
  have c: "cleanup ((k', v) # ob) = (if v = JObj [] then cleanup ob else (k', v) # cleanup ob)"
    by (simp add: cleanup_def)
  show ?case
  proof (cases "k = k'")
    case True
    then show ?thesis
      using obj_get_cleanup_absent [OF k'] by (simp add: c a obj_get_Cons)
  next
    case False
    then show ?thesis
      using Cons.IH [OF d] by (simp add: c a obj_get_Cons)
  qed
qed

lemma structuredExif_no_tags:
  assumes "tags ed = None"
  shows "structuredExif loc p name fsz ed =
    Inr (assembled (fileInfo_value loc name fsz) (image_field p ed) [] [] [] JNull JNull (exif_value ed))"
  using assms
  by (simp add: structuredExif_def assembled_def image_field_def split: option.splits)

lemma structuredExif_tags:
  assumes "tags ed = Some t"
  shows "structuredExif loc p name fsz ed =
    (case timestamp_field loc p t of
       Inl err \<Rightarrow> Inl err
     | Inr ts \<Rightarrow> Inr (assembled (fileInfo_value loc name fsz) (image_field p ed)
         (camera_group t) (lens_group t) (exposure_group t)
         (if gps_wanted p t then JObj (gps_group t) else JNull)
         (case ts of None \<Rightarrow> JNull | Some v \<Rightarrow> v) (exif_value ed)))"
  using assms
  by (simp add: structuredExif_def assembled_def image_field_def split: option.splits sum.splits)

lemma distinct_assembled: "distinct (map fst (assembled fi img cam lens ex gps ts raw))"
  by (simp add: assembled_def)

lemma obj_get_assembled:
  "obj_get (assembled fi img cam lens ex gps ts raw) ''fileInfo'' = Some fi"
  "obj_get (assembled fi img cam lens ex gps ts raw) ''imageSize'' = Some img"
  "obj_get (assembled fi img cam lens ex gps ts raw) ''camera'' = Some (JObj cam)"
  "obj_get (assembled fi img cam lens ex gps ts raw) ''lens'' = Some (JObj lens)"
  "obj_get (assembled fi img cam lens ex gps ts raw) ''exposure'' = Some (JObj ex)"
  "obj_get (assembled fi img cam lens ex gps ts raw) ''gps'' = Some gps"
  "obj_get (assembled fi img cam lens ex gps ts raw) ''timestamp'' = Some ts"
  "obj_get (assembled fi img cam lens ex gps ts raw) ''raw'' = Some raw"
  by (simp_all add: assembled_def obj_get_def)

lemma obj_get_cleanup_assembled:
  "obj_get (cleanup (assembled fi img cam lens ex gps ts raw)) k =
     (case obj_get (assembled fi img cam lens ex gps ts raw) k of
        None \<Rightarrow> None | Some v \<Rightarrow> if v = JObj [] then None else Some v)"
  by (rule obj_get_cleanup) (rule distinct_assembled)

lemmas cleaned = obj_get_cleanup_assembled obj_get_assembled

lemma fileInfo_nonempty: "fileInfo_value loc name fsz \<noteq> JObj []"
  by (simp add: fileInfo_value_def)

lemma exif_value_nonempty: "exif_value ed \<noteq> JObj []"
  by (simp add: exif_value_def)

lemma no_recognized_groups:
  assumes "no_recognized_keys t"
  shows "camera_group t = []" "lens_group t = []" "exposure_group t = []"
    "\<not> gps_wanted p t" "timestamp_field loc p t = Inr None"
  using assms
  by (simp_all add: no_recognized_keys_def camera_group_def lens_group_def exposure_group_def
      gps_wanted_def timestamp_field_def truthy_num_opt_def truthy_str_opt_def set_when_def)

lemma normalize_no_tags:
  assumes "tags ed = None"
  shows "normalize_exif loc p name fsz ed =
    Inr (cleanup (assembled (fileInfo_value loc name fsz) (image_field p ed) [] [] [] JNull JNull
      (exif_value ed)))"
  by (simp add: normalize_exif_def structuredExif_no_tags [OF assms])

lemma normalize_tags:
  assumes "tags ed = Some t"
  shows "normalize_exif loc p name fsz ed =
    (case timestamp_field loc p t of
       Inl err \<Rightarrow> Inl err
     | Inr ts \<Rightarrow> Inr (cleanup (assembled (fileInfo_value loc name fsz) (image_field p ed)
         (camera_group t) (lens_group t) (exposure_group t)
         (if gps_wanted p t then JObj (gps_group t) else JNull)
         (case ts of None \<Rightarrow> JNull | Some v \<Rightarrow> v) (exif_value ed))))"
  by (simp add: normalize_exif_def structuredExif_tags [OF assms] split: sum.splits)

lemma normalize_tagsE:
  assumes "tags ed = Some t" and "normalize_exif loc p name fsz ed = Inr c"
  obtains ts where "timestamp_field loc p t = Inr ts"
    and "c = cleanup (assembled (fileInfo_value loc name fsz) (image_field p ed)
         (camera_group t) (lens_group t) (exposure_group t)
         (if gps_wanted p t then JObj (gps_group t) else JNull)
         (case ts of None \<Rightarrow> JNull | Some v \<Rightarrow> v) (exif_value ed))"
  using assms(2) unfolding normalize_tags [OF assms(1)]
  by (cases "timestamp_field loc p t") auto

lemma tags_tagged: "tags (tagged t) = Some t"
  by (simp add: tagged_def)

lemma image_field_tagged: "image_field p (tagged t) = JNull"
  by (simp add: image_field_def tagged_def)

lemma gps_group_nonempty: "gps_group t \<noteq> []"
  by (simp add: gps_group_def set_when_Nil_iff)

lemma cleaned_groups:
  assumes "tags ed = Some t" and "normalize_exif loc p name fsz ed = Inr c"
  shows "obj_get c ''camera'' = (if camera_group t = [] then None else Some (JObj (camera_group t)))"
    and "obj_get c ''lens'' = (if lens_group t = [] then None else Some (JObj (lens_group t)))"
    and "obj_get c ''exposure'' =
          (if exposure_group t = [] then None else Some (JObj (exposure_group t)))"
    and "obj_get c ''gps'' = Some (if gps_wanted p t then JObj (gps_group t) else JNull)"
  using assms
  by (elim normalize_tagsE; simp add: cleaned gps_group_nonempty)+

lemma cleaned_gps_no_tags:
  assumes "tags ed = None" and "normalize_exif loc p name fsz ed = Inr c"
  shows "obj_get c ''gps'' = Some JNull"
  using assms(2) unfolding normalize_no_tags [OF assms(1)] by (auto simp: cleaned)

lemma obj_get_nonempty: "obj_get ob k = Some v \<Longrightarrow> ob \<noteq> []"
  by (auto simp: obj_get_def)

lemma normalize_tagged:
  "normalize_exif loc p name fsz (tagged t) =
    (case timestamp_field loc p t of
       Inl err \<Rightarrow> Inl err
     | Inr ts \<Rightarrow> Inr (cleanup (assembled (fileInfo_value loc name fsz) JNull
         (camera_group t) (lens_group t) (exposure_group t)
         (if gps_wanted p t then JObj (gps_group t) else JNull)
         (case ts of None \<Rightarrow> JNull | Some v \<Rightarrow> v) (exif_value (tagged t)))))"
  by (simp add: normalize_tags [OF tags_tagged] image_field_tagged split: sum.splits)

lemmas group_defs = camera_group_def lens_group_def exposure_group_def gps_wanted_def
  timestamp_field_def truthy_num_opt_def truthy_str_opt_def truthy_str_def set_when_def num_or_def


section \<open>C1: the fields that are always there, and the empty tag dictionary\<close>

text \<open>
  C1 (as amended). The structured record of an item processed successfully contains
  \<open>fileInfo\<close> and \<open>raw\<close>, the latter being the decoded structure as it came. For a
  tag dictionary with no recognized key (or none at all) the normalizer succeeds, the
  \<open>camera\<close>, \<open>lens\<close> and \<open>exposure\<close> groups are absent, \<open>gps\<close> and
  \<open>timestamp\<close> are \<open>null\<close>, and \<open>imageSize\<close> is \<open>null\<close> unless
  \<open>includeImageSize\<close> is set and the decoder reported a size, in which case it holds
  that width and height.
\<close>

theorem output_groups_spec:
  shows "(\<forall>c. normalize_exif loc p name fsz ed = Inr c \<longrightarrow>
       obj_get c ''fileInfo'' = Some (fileInfo_value loc name fsz)
       \<and> obj_get c ''raw'' = Some (exif_value ed))
    \<and> (tags ed = None \<or> (\<exists>t. tags ed = Some t \<and> no_recognized_keys t) \<longrightarrow>
     (\<exists>c. normalize_exif loc p name fsz ed = Inr c
    \<and> obj_get c ''fileInfo'' = Some (fileInfo_value loc name fsz)
    \<and> obj_get c ''raw'' = Some (exif_value ed)
    \<and> obj_get c ''camera'' = None \<and> obj_get c ''lens'' = None \<and> obj_get c ''exposure'' = None
    \<and> obj_get c ''gps'' = Some JNull \<and> obj_get c ''timestamp'' = Some JNull
    \<and> obj_get c ''imageSize'' =
        (case (if includeImageSize p then imageSize ed else None) of
           None \<Rightarrow> Some JNull
         | Some sz \<Rightarrow> Some (JObj [(''width'', JNum (width sz)), (''height'', JNum (height sz))]))))"
  (is "?always \<and> (?empty \<longrightarrow> ?groups)")
proof (intro conjI impI)
  show ?always
  proof (intro allI impI)
    fix c
    assume c: "normalize_exif loc p name fsz ed = Inr c"
    show "obj_get c ''fileInfo'' = Some (fileInfo_value loc name fsz)
       \<and> obj_get c ''raw'' = Some (exif_value ed)"
    proof (cases "tags ed")
      case None
      from c show ?thesis
        unfolding normalize_no_tags [OF None]
        by (auto simp: cleaned fileInfo_nonempty exif_value_nonempty)
    next
      case (Some t)
      from Some c show ?thesis
        by (elim normalize_tagsE) (auto simp: cleaned fileInfo_nonempty exif_value_nonempty)
    qed
  qed
next
  assume e: ?empty
  have s: "structuredExif loc p name fsz ed =
      Inr (assembled (fileInfo_value loc name fsz) (image_field p ed) [] [] [] JNull JNull (exif_value ed))"
    using e
  proof
    assume "tags ed = None"
    then show ?thesis by (rule structuredExif_no_tags)
  next
    assume "\<exists>t. tags ed = Some t \<and> no_recognized_keys t"
    then obtain t where t: "tags ed = Some t" "no_recognized_keys t" by blast
    show ?thesis
      by (simp add: structuredExif_tags [OF t(1)] no_recognized_groups [OF t(2)])
  qed
  show ?groups
    unfolding normalize_exif_def s
    by (simp add: cleaned fileInfo_nonempty exif_value_nonempty image_field_def
        split: option.splits)
qed

theorem output_groups_spec_witness:
  "\<exists>c. normalize_exif plain_locale default_params ''photo.jpg'' 0 sized_image = Inr c
     \<and> obj_get c ''fileInfo'' = Some (fileInfo_value plain_locale ''photo.jpg'' 0)
     \<and> obj_get c ''raw'' = Some (exif_value sized_image)
     \<and> obj_get c ''camera'' = None \<and> obj_get c ''lens'' = None \<and> obj_get c ''exposure'' = None
     \<and> obj_get c ''gps'' = Some JNull \<and> obj_get c ''timestamp'' = Some JNull"
proof -
  have e: "tags sized_image = None \<or> (\<exists>t. tags sized_image = Some t \<and> no_recognized_keys t)"
    by (simp add: sized_image_def no_recognized_keys_def no_tags_def)
  from output_groups_spec [of plain_locale default_params "''photo.jpg''" 0 sized_image] e
  show ?thesis by blast
qed

text \<open>
  C1 as stated fails for \<open>imageSize\<close>: with the default parameters, a decoded image
  that reports its size and has an empty tag dictionary gets that size, not \<open>null\<close>.
\<close>

theorem imageSize_not_null_counterexample:
  "tags sized_image = Some no_tags \<and> no_recognized_keys no_tags
   \<and> normalize_exif plain_locale default_params ''photo.jpg'' 0 sized_image =
       Inr [(''fileInfo'', fileInfo_value plain_locale ''photo.jpg'' 0),
            (''imageSize'', JObj [(''width'', JNum (Fin 4000)), (''height'', JNum (Fin 3000))]),
            (''gps'', JNull), (''timestamp'', JNull), (''raw'', exif_value sized_image)]"
proof -
  have t: "tags sized_image = Some no_tags" by (simp add: sized_image_def)
  have k: "no_recognized_keys no_tags" by (simp add: no_recognized_keys_def no_tags_def)
  have i: "image_field default_params sized_image =
      JObj [(''width'', JNum (Fin 4000)), (''height'', JNum (Fin 3000))]"
    by (simp add: image_field_def default_params_def sized_image_def)
  have "normalize_exif plain_locale default_params ''photo.jpg'' 0 sized_image =
       Inr [(''fileInfo'', fileInfo_value plain_locale ''photo.jpg'' 0),
            (''imageSize'', JObj [(''width'', JNum (Fin 4000)), (''height'', JNum (Fin 3000))]),
            (''gps'', JNull), (''timestamp'', JNull), (''raw'', exif_value sized_image)]"
    unfolding normalize_tags [OF t] i
    by (simp add: no_recognized_groups [OF k] assembled_def cleanup_def fileInfo_nonempty
        exif_value_nonempty)
  with t k show ?thesis by blast
qed



section \<open>C2: the exposure mode\<close>

lemma floor_small:
  assumes "of_int \<lfloor>r\<rfloor> = (r::rat)" "0 \<le> r" "nat \<lfloor>r\<rfloor> < 3"
  shows "r = 0 \<or> r = 1 \<or> r = 2"
proof -
  have "0 \<le> \<lfloor>r\<rfloor>" using assms(2) by simp
  with assms(3) have "\<lfloor>r\<rfloor> = 0 \<or> \<lfloor>r\<rfloor> = 1 \<or> \<lfloor>r\<rfloor> = 2" by linarith
  then show ?thesis
  proof (elim disjE)
    assume "\<lfloor>r\<rfloor> = 0"
    with assms(1) show ?thesis by simp
  next
    assume "\<lfloor>r\<rfloor> = 1"
    with assms(1) show ?thesis by simp
  next
    assume "\<lfloor>r\<rfloor> = 2"
    with assms(1) show ?thesis by simp
  qed
qed

lemma length_exposureModes: "length exposureModes = 3"
  by (simp add: exposureModes_def)

lemma array_at_exposureModes:
  "array_at exposureModes (Fin r) =
     (if r = 0 then Some ''Auto'' else if r = 1 then Some ''Manual''
      else if r = 2 then Some ''Auto bracket'' else None)"
proof -
  consider "r = 0" | "r = 1" | "r = 2" | "r \<noteq> 0" "r \<noteq> 1" "r \<noteq> 2" by blast
  then show ?thesis
  proof cases
    case 1
    then show ?thesis by (simp add: exposureModes_def)
  next
    case 2
    then show ?thesis by (simp add: exposureModes_def)
  next
    case 3
    then show ?thesis by (simp add: exposureModes_def)
  next
    case 4
    with floor_small [of r] have "\<not> (of_int \<lfloor>r\<rfloor> = r \<and> 0 \<le> r \<and> nat \<lfloor>r\<rfloor> < 3)"
      by blast
    then have "array_at exposureModes (Fin r) = None"
      unfolding array_at.simps length_exposureModes by (rule if_not_P)
    with 4 show ?thesis by simp
  qed
qed


lemma exposure_mode_cases:
  "exposure_mode v =
     (if v = Fin 0 then ''Auto'' else if v = Fin 1 then ''Manual''
      else if v = Fin 2 then ''Auto bracket'' else ''Unknown'')"
proof (cases v)
  case (Fin r)
  show ?thesis
    unfolding Fin exposure_mode_def array_at_exposureModes
    by (simp add: truthy_str_opt_def truthy_str_def)
qed (simp_all add: exposure_mode_def truthy_str_opt_def)

lemma exposure_group_mode:
  "obj_get (exposure_group t) ''mode'' = map_option (\<lambda>v. JStr (exposure_mode v)) (ExposureMode t)"
  by (simp add: exposure_group_def obj_get_set_when obj_get_Nil)

lemma exposure_group_shutterSpeed:
  "obj_get (exposure_group t) ''shutterSpeed'' =
     map_option (\<lambda>v. JStr (shutterSpeed v)) (truthy_num_opt (ExposureTime t))"
  by (simp add: exposure_group_def obj_get_set_when obj_get_Nil)


text \<open>
  C2. When \<open>ExposureMode\<close> is defined, with whatever number (0 included), the
  \<open>exposure\<close> group is in the output and its \<open>mode\<close> is \<open>Auto\<close> for 0,
  \<open>Manual\<close> for 1, \<open>Auto bracket\<close> for 2 and \<open>Unknown\<close> for any other number.
\<close>

theorem exposure_mode_spec:
  assumes "tags ed = Some t" and "ExposureMode t = Some v"
    and "normalize_exif loc p name fsz ed = Inr c"
  shows "\<exists>g. obj_get c ''exposure'' = Some (JObj g)
    \<and> obj_get g ''mode'' = Some (JStr
        (if v = Fin 0 then ''Auto'' else if v = Fin 1 then ''Manual''
         else if v = Fin 2 then ''Auto bracket'' else ''Unknown''))"
proof -
  have m: "obj_get (exposure_group t) ''mode'' = Some (JStr (exposure_mode v))"
    by (simp add: exposure_group_mode assms(2))
  from cleaned_groups(3) [OF assms(1,3)] obj_get_nonempty [OF m]
  have "obj_get c ''exposure'' = Some (JObj (exposure_group t))" by simp
  with m show ?thesis unfolding exposure_mode_cases by blast
qed

lemma auto_mode_output:
  "normalize_exif plain_locale default_params ''photo.jpg'' 0 (tagged auto_mode_tags) =
     Inr [(''fileInfo'', fileInfo_value plain_locale ''photo.jpg'' 0), (''imageSize'', JNull),
          (''exposure'', JObj [(''mode'', JStr ''Auto'')]),
          (''gps'', JNull), (''timestamp'', JNull),
          (''raw'', exif_value (tagged auto_mode_tags))]"
  unfolding normalize_tagged
  by (simp add: auto_mode_tags_def no_tags_def group_defs exposure_mode_cases
      assembled_def cleanup_def fileInfo_nonempty exif_value_nonempty)

theorem exposure_mode_spec_witness:
  "tags (tagged auto_mode_tags) = Some auto_mode_tags
   \<and> ExposureMode auto_mode_tags = Some (Fin 0)
   \<and> (\<exists>c g. normalize_exif plain_locale default_params ''photo.jpg'' 0 (tagged auto_mode_tags) = Inr c
        \<and> obj_get c ''exposure'' = Some (JObj g)
        \<and> obj_get g ''mode'' = Some (JStr ''Auto''))"
proof -
  have m: "ExposureMode auto_mode_tags = Some (Fin 0)"
    by (simp add: auto_mode_tags_def no_tags_def)
  from exposure_mode_spec [OF tags_tagged m auto_mode_output] m tags_tagged auto_mode_output
  show ?thesis by auto
qed


section \<open>C4 and C5: the GPS group\<close>

lemma gps_group_get:
  "obj_get (gps_group t) ''latitude'' = Some (num_or_null (GPSLatitude t))"
  "obj_get (gps_group t) ''longitude'' = Some (num_or_null (GPSLongitude t))"
  "obj_get (gps_group t) ''altitude'' = Some (num_or_null (GPSAltitude t))"
  "obj_get (gps_group t) ''latitudeRef'' = Some (str_or_null (GPSLatitudeRef t))"
  "obj_get (gps_group t) ''longitudeRef'' = Some (str_or_null (GPSLongitudeRef t))"
  "obj_get (gps_group t) ''latitudeDecimal'' =
     decimal_entry ''S'' (GPSLatitude t) (GPSLatitudeRef t)"
  "obj_get (gps_group t) ''longitudeDecimal'' =
     decimal_entry ''W'' (GPSLongitude t) (GPSLongitudeRef t)"
  by (simp_all add: gps_group_def obj_get_set_when obj_get_Cons obj_get_Nil)

lemma num_or_null_cases:
  "num_or_null v = (case truthy_num_opt v of Some n \<Rightarrow> JNum n | None \<Rightarrow> JNull)"
  "str_or_null w = (case truthy_str_opt w of Some s \<Rightarrow> JStr s | None \<Rightarrow> JNull)"
  by (simp_all add: num_or_null_def str_or_null_def)

lemma decimal_entry_cases:
  "decimal_entry l mag ref =
     (case truthy_num_opt mag of
        None \<Rightarrow> None
      | Some m \<Rightarrow>
          (case truthy_str_opt ref of
             None \<Rightarrow> None
           | Some r \<Rightarrow> Some (JNum (if r = l then num_neg (math_abs m) else math_abs m))))"
  by (simp add: decimal_entry_def split: option.splits)

lemma gps_emitted:
  assumes "normalize_exif loc p name fsz ed = Inr c" and "obj_get c ''gps'' = Some (JObj g)"
  obtains t where "tags ed = Some t" and "gps_wanted p t" and "g = gps_group t"
proof (cases "tags ed")
  case None
  from cleaned_gps_no_tags [OF None assms(1)] assms(2) show ?thesis by simp
next
  case (Some t)
  from cleaned_groups(4) [OF Some assms(1)] assms(2)
  have "gps_wanted p t" and "g = gps_group t" by (auto split: if_splits)
  with Some show ?thesis by (rule that)
qed

lemma truthy_num_iff: "truthy_num m \<longleftrightarrow> m \<noteq> Fin 0 \<and> m \<noteq> NaN"
  by (cases m) auto

lemma num_or_null_iff:
  "num_or_null v \<noteq> JNull \<longleftrightarrow> (\<exists>m. v = Some m \<and> m \<noteq> Fin 0 \<and> m \<noteq> NaN)"
  by (cases v) (simp_all add: num_or_null_def truthy_num_opt_def truthy_num_iff)

lemma str_or_null_iff: "str_or_null w \<noteq> JNull \<longleftrightarrow> (\<exists>r. w = Some r \<and> r \<noteq> [])"
  by (cases w) (simp_all add: str_or_null_def truthy_str_opt_def truthy_str_def)

lemma decimal_entry_truthy:
  assumes "v = Some m" and "m \<noteq> Fin 0" and "m \<noteq> NaN" and "w = Some r" and "r \<noteq> []"
  shows "decimal_entry l v w = Some (JNum (if r = l then num_neg (math_abs m) else math_abs m))"
  using assms
  by (simp add: decimal_entry_def truthy_num_opt_def truthy_str_opt_def truthy_str_def
      truthy_num_iff)

lemma decimal_entry_iff:
  "decimal_entry l v w \<noteq> None \<longleftrightarrow> num_or_null v \<noteq> JNull \<and> str_or_null w \<noteq> JNull"
  unfolding num_or_null_cases decimal_entry_cases by (auto split: option.splits)

text \<open>
  C4. Let the GPS group be emitted. Its \<open>latitude\<close> is other than \<open>null\<close> exactly
  when the latitude tag is a number other than 0 and \<open>NaN\<close>, its \<open>latitudeRef\<close>
  exactly when the reference tag is a string other than the empty one, and it has a
  \<open>latitudeDecimal\<close> exactly when both are other than \<open>null\<close>: a latitude of 0 or
  an empty reference gives no decimal. The decimal is minus the absolute value of the
  latitude when the reference is \<open>S\<close> and the absolute value otherwise. The same holds
  of \<open>longitudeDecimal\<close>, with \<open>W\<close>.
\<close>

theorem gps_decimal_spec:
  assumes "tags ed = Some t" and "normalize_exif loc p name fsz ed = Inr c"
    and "obj_get c ''gps'' = Some (JObj g)"
  shows "(obj_get g ''latitudeDecimal'' \<noteq> None \<longleftrightarrow>
            obj_get g ''latitude'' \<noteq> Some JNull \<and> obj_get g ''latitudeRef'' \<noteq> Some JNull)
    \<and> (obj_get g ''latitude'' \<noteq> Some JNull \<longleftrightarrow>
          (\<exists>m. GPSLatitude t = Some m \<and> m \<noteq> Fin 0 \<and> m \<noteq> NaN))
    \<and> (obj_get g ''latitudeRef'' \<noteq> Some JNull \<longleftrightarrow>
          (\<exists>r. GPSLatitudeRef t = Some r \<and> r \<noteq> []))
    \<and> (\<forall>m r. GPSLatitude t = Some m \<and> m \<noteq> Fin 0 \<and> m \<noteq> NaN
            \<and> GPSLatitudeRef t = Some r \<and> r \<noteq> []
          \<longrightarrow> obj_get g ''latitudeDecimal'' =
                Some (JNum (if r = ''S'' then num_neg (math_abs m) else math_abs m)))
    \<and> (obj_get g ''longitudeDecimal'' \<noteq> None \<longleftrightarrow>
            obj_get g ''longitude'' \<noteq> Some JNull \<and> obj_get g ''longitudeRef'' \<noteq> Some JNull)
    \<and> (obj_get g ''longitude'' \<noteq> Some JNull \<longleftrightarrow>
          (\<exists>m. GPSLongitude t = Some m \<and> m \<noteq> Fin 0 \<and> m \<noteq> NaN))
    \<and> (obj_get g ''longitudeRef'' \<noteq> Some JNull \<longleftrightarrow>
          (\<exists>r. GPSLongitudeRef t = Some r \<and> r \<noteq> []))
    \<and> (\<forall>m r. GPSLongitude t = Some m \<and> m \<noteq> Fin 0 \<and> m \<noteq> NaN
            \<and> GPSLongitudeRef t = Some r \<and> r \<noteq> []
          \<longrightarrow> obj_get g ''longitudeDecimal'' =
                Some (JNum (if r = ''W'' then num_neg (math_abs m) else math_abs m)))
    \<and> (\<forall>x. math_abs (Fin x) = Fin \<bar>x\<bar> \<and> num_neg (math_abs (Fin x)) = Fin (- \<bar>x\<bar>))"
proof -
  from assms(2,3) obtain t' where "tags ed = Some t'" and "g = gps_group t'"
    by (rule gps_emitted)
  with assms(1) have g: "g = gps_group t" by simp
  have 1: "obj_get g ''latitudeDecimal'' \<noteq> None \<longleftrightarrow>
      obj_get g ''latitude'' \<noteq> Some JNull \<and> obj_get g ''latitudeRef'' \<noteq> Some JNull"
    unfolding g gps_group_get option.inject by (rule decimal_entry_iff)
  have 2: "obj_get g ''latitude'' \<noteq> Some JNull \<longleftrightarrow>
      (\<exists>m. GPSLatitude t = Some m \<and> m \<noteq> Fin 0 \<and> m \<noteq> NaN)"
    unfolding g gps_group_get by (simp add: num_or_null_iff)
  have 3: "obj_get g ''latitudeRef'' \<noteq> Some JNull \<longleftrightarrow>
      (\<exists>r. GPSLatitudeRef t = Some r \<and> r \<noteq> [])"
    unfolding g gps_group_get by (simp add: str_or_null_iff)
  have 4: "\<forall>m r. GPSLatitude t = Some m \<and> m \<noteq> Fin 0 \<and> m \<noteq> NaN
            \<and> GPSLatitudeRef t = Some r \<and> r \<noteq> []
          \<longrightarrow> obj_get g ''latitudeDecimal'' =
                Some (JNum (if r = ''S'' then num_neg (math_abs m) else math_abs m))"
    unfolding g gps_group_get by (intro allI impI decimal_entry_truthy) simp_all
  have 5: "obj_get g ''longitudeDecimal'' \<noteq> None \<longleftrightarrow>
      obj_get g ''longitude'' \<noteq> Some JNull \<and> obj_get g ''longitudeRef'' \<noteq> Some JNull"
    unfolding g gps_group_get option.inject by (rule decimal_entry_iff)
  have 6: "obj_get g ''longitude'' \<noteq> Some JNull \<longleftrightarrow>
      (\<exists>m. GPSLongitude t = Some m \<and> m \<noteq> Fin 0 \<and> m \<noteq> NaN)"
    unfolding g gps_group_get by (simp add: num_or_null_iff)
  have 7: "obj_get g ''longitudeRef'' \<noteq> Some JNull \<longleftrightarrow>
      (\<exists>r. GPSLongitudeRef t = Some r \<and> r \<noteq> [])"
    unfolding g gps_group_get by (simp add: str_or_null_iff)
  have 8: "\<forall>m r. GPSLongitude t = Some m \<and> m \<noteq> Fin 0 \<and> m \<noteq> NaN
            \<and> GPSLongitudeRef t = Some r \<and> r \<noteq> []
          \<longrightarrow> obj_get g ''longitudeDecimal'' =
                Some (JNum (if r = ''W'' then num_neg (math_abs m) else math_abs m))"
    unfolding g gps_group_get by (intro allI impI decimal_entry_truthy) simp_all
  have 9: "\<forall>x. math_abs (Fin x) = Fin \<bar>x\<bar> \<and> num_neg (math_abs (Fin x)) = Fin (- \<bar>x\<bar>)"
    by simp
  from 1 2 3 4 5 6 7 8 9 show ?thesis by (intro conjI)
qed

lemma southern_output:
  "normalize_exif plain_locale default_params ''photo.jpg'' 0 (tagged southern_tags) =
     Inr [(''fileInfo'', fileInfo_value plain_locale ''photo.jpg'' 0), (''imageSize'', JNull),
          (''gps'', JObj [(''latitude'', JNum (Fin (407 / 10))), (''longitude'', JNull),
                          (''altitude'', JNull), (''latitudeRef'', JStr ''S''),
                          (''longitudeRef'', JNull),
                          (''latitudeDecimal'', JNum (Fin (- (407 / 10))))]),
          (''timestamp'', JNull),
          (''raw'', exif_value (tagged southern_tags))]"
proof -
  have g: "gps_group southern_tags =
      [(''latitude'', JNum (Fin (407 / 10))), (''longitude'', JNull),
       (''altitude'', JNull), (''latitudeRef'', JStr ''S''), (''longitudeRef'', JNull),
       (''latitudeDecimal'', JNum (Fin (- (407 / 10))))]"
    by (simp add: southern_tags_def no_tags_def gps_group_def decimal_entry_def num_or_null_def
        str_or_null_def truthy_num_opt_def truthy_str_opt_def truthy_str_def set_when_def)
  have o: "camera_group southern_tags = []" "lens_group southern_tags = []"
    "exposure_group southern_tags = []" "gps_wanted default_params southern_tags"
    "timestamp_field plain_locale default_params southern_tags = Inr None"
    by (simp_all add: southern_tags_def no_tags_def default_params_def group_defs)
  show ?thesis
    unfolding normalize_tagged g
    by (simp add: o assembled_def cleanup_def fileInfo_nonempty exif_value_nonempty)
qed

lemma equator_output:
  "normalize_exif plain_locale default_params ''photo.jpg'' 0 (tagged equator_tags) =
     Inr [(''fileInfo'', fileInfo_value plain_locale ''photo.jpg'' 0), (''imageSize'', JNull),
          (''gps'', JObj [(''latitude'', JNull), (''longitude'', JNum (Fin (- 74))),
                          (''altitude'', JNull), (''latitudeRef'', JStr ''N''),
                          (''longitudeRef'', JStr ''W''),
                          (''longitudeDecimal'', JNum (Fin (- 74)))]),
          (''timestamp'', JNull),
          (''raw'', exif_value (tagged equator_tags))]"
proof -
  have g: "gps_group equator_tags =
      [(''latitude'', JNull), (''longitude'', JNum (Fin (- 74))),
       (''altitude'', JNull), (''latitudeRef'', JStr ''N''), (''longitudeRef'', JStr ''W''),
       (''longitudeDecimal'', JNum (Fin (- 74)))]"
    by (simp add: equator_tags_def no_tags_def gps_group_def decimal_entry_def num_or_null_def
        str_or_null_def truthy_num_opt_def truthy_str_opt_def truthy_str_def set_when_def)
  have o: "camera_group equator_tags = []" "lens_group equator_tags = []"
    "exposure_group equator_tags = []" "gps_wanted default_params equator_tags"
    "timestamp_field plain_locale default_params equator_tags = Inr None"
    by (simp_all add: equator_tags_def no_tags_def default_params_def group_defs)
  show ?thesis
    unfolding normalize_tagged g
    by (simp add: o assembled_def cleanup_def fileInfo_nonempty exif_value_nonempty)
qed

theorem gps_decimal_spec_witness:
  "(\<exists>c g. normalize_exif plain_locale default_params ''photo.jpg'' 0 (tagged southern_tags) = Inr c
     \<and> obj_get c ''gps'' = Some (JObj g)
     \<and> GPSLatitude southern_tags = Some (Fin (407 / 10))
     \<and> GPSLatitudeRef southern_tags = Some ''S''
     \<and> obj_get g ''latitudeDecimal'' = Some (JNum (Fin (- (407 / 10))))
     \<and> obj_get g ''longitudeDecimal'' = None)
   \<and> (\<exists>c g. normalize_exif plain_locale default_params ''photo.jpg'' 0 (tagged equator_tags) = Inr c
     \<and> obj_get c ''gps'' = Some (JObj g)
     \<and> GPSLatitude equator_tags = Some (Fin 0)
     \<and> GPSLatitudeRef equator_tags = Some ''N''
     \<and> obj_get g ''latitude'' = Some JNull
     \<and> obj_get g ''latitudeDecimal'' = None
     \<and> obj_get g ''longitudeDecimal'' = Some (JNum (Fin (- 74))))"
proof -
  let ?g = "[(''latitude'', JNum (Fin (407 / 10))), (''longitude'', JNull),
       (''altitude'', JNull), (''latitudeRef'', JStr ''S''), (''longitudeRef'', JNull),
       (''latitudeDecimal'', JNum (Fin (- (407 / 10))))]"
  let ?c = "[(''fileInfo'', fileInfo_value plain_locale ''photo.jpg'' 0), (''imageSize'', JNull),
          (''gps'', JObj ?g), (''timestamp'', JNull),
          (''raw'', exif_value (tagged southern_tags))]"
  have c: "obj_get ?c ''gps'' = Some (JObj ?g)"
    by (simp add: obj_get_def)
  have t: "GPSLatitude southern_tags = Some (Fin (407 / 10))"
    "GPSLatitudeRef southern_tags = Some ''S''"
    "GPSLongitude southern_tags = None"
    by (simp_all add: southern_tags_def no_tags_def)
  have n: "Fin (407 / 10) \<noteq> Fin 0" "Fin (407 / 10) \<noteq> NaN" "''S'' \<noteq> []" by simp_all
  note s = gps_decimal_spec [OF tags_tagged southern_output c]
  from s t n have "obj_get ?g ''latitudeDecimal'' =
      Some (JNum (if ''S'' = ''S'' then num_neg (math_abs (Fin (407 / 10)))
                  else math_abs (Fin (407 / 10))))"
    by blast
  then have d: "obj_get ?g ''latitudeDecimal'' = Some (JNum (Fin (- (407 / 10))))" by simp
  from s t have "obj_get ?g ''longitude'' = Some JNull" by (simp add: obj_get_def)
  with s have e: "obj_get ?g ''longitudeDecimal'' = None" by blast
  from southern_output c t d e
  have 1: "\<exists>c g. normalize_exif plain_locale default_params ''photo.jpg'' 0 (tagged southern_tags) = Inr c
     \<and> obj_get c ''gps'' = Some (JObj g)
     \<and> GPSLatitude southern_tags = Some (Fin (407 / 10))
     \<and> GPSLatitudeRef southern_tags = Some ''S''
     \<and> obj_get g ''latitudeDecimal'' = Some (JNum (Fin (- (407 / 10))))
     \<and> obj_get g ''longitudeDecimal'' = None"
    by blast
  let ?h = "[(''latitude'', JNull), (''longitude'', JNum (Fin (- 74))),
       (''altitude'', JNull), (''latitudeRef'', JStr ''N''), (''longitudeRef'', JStr ''W''),
       (''longitudeDecimal'', JNum (Fin (- 74)))]"
  let ?d = "[(''fileInfo'', fileInfo_value plain_locale ''photo.jpg'' 0), (''imageSize'', JNull),
          (''gps'', JObj ?h), (''timestamp'', JNull),
          (''raw'', exif_value (tagged equator_tags))]"
  have c': "obj_get ?d ''gps'' = Some (JObj ?h)"
    by (simp add: obj_get_def)
  have t': "GPSLatitude equator_tags = Some (Fin 0)"
    "GPSLatitudeRef equator_tags = Some ''N''"
    "GPSLongitude equator_tags = Some (Fin (- 74))"
    "GPSLongitudeRef equator_tags = Some ''W''"
    by (simp_all add: equator_tags_def no_tags_def)
  have n': "Fin (- 74) \<noteq> Fin 0" "Fin (- 74) \<noteq> NaN" "''W'' \<noteq> []" by simp_all
  note s' = gps_decimal_spec [OF tags_tagged equator_output c']
  from s' t' have l: "\<not> obj_get ?h ''latitude'' \<noteq> Some JNull" by simp
  with s' have d': "obj_get ?h ''latitudeDecimal'' = None" by blast
  from s' t' n' have "obj_get ?h ''longitudeDecimal'' =
      Some (JNum (if ''W'' = ''W'' then num_neg (math_abs (Fin (- 74)))
                  else math_abs (Fin (- 74))))"
    by blast
  then have e': "obj_get ?h ''longitudeDecimal'' = Some (JNum (Fin (- 74)))" by simp
  from equator_output c' t' l d' e'
  have 2: "\<exists>c g. normalize_exif plain_locale default_params ''photo.jpg'' 0 (tagged equator_tags) = Inr c
     \<and> obj_get c ''gps'' = Some (JObj g)
     \<and> GPSLatitude equator_tags = Some (Fin 0)
     \<and> GPSLatitudeRef equator_tags = Some ''N''
     \<and> obj_get g ''latitude'' = Some JNull
     \<and> obj_get g ''latitudeDecimal'' = None
     \<and> obj_get g ''longitudeDecimal'' = Some (JNum (Fin (- 74)))"
    by blast
  from 1 2 show ?thesis by (rule conjI)
qed


text \<open>
  C5 (as amended). The output has a GPS group if and only if \<open>includeGps\<close> is set and
  the latitude tag or the longitude tag is truthy (a number other than 0 and \<open>NaN\<close>);
  otherwise \<open>gps\<close> is \<open>null\<close>. When the group is emitted, each of \<open>latitude\<close>,
  \<open>longitude\<close>, \<open>altitude\<close>, \<open>latitudeRef\<close> and \<open>longitudeRef\<close> is the value
  of its tag when that value is truthy, and \<open>null\<close> when the tag is missing or falsy
  (0, \<open>NaN\<close>, the empty string).
\<close>

theorem gps_group_spec:
  assumes "normalize_exif loc p name fsz ed = Inr c"
  shows "((\<exists>g. obj_get c ''gps'' = Some (JObj g)) \<longleftrightarrow>
          (\<exists>t. tags ed = Some t \<and> includeGps p
             \<and> (truthy_num_opt (GPSLatitude t) \<noteq> None \<or> truthy_num_opt (GPSLongitude t) \<noteq> None)))
    \<and> ((\<exists>g. obj_get c ''gps'' = Some (JObj g)) \<or> obj_get c ''gps'' = Some JNull)
    \<and> (\<forall>t g. tags ed = Some t \<and> obj_get c ''gps'' = Some (JObj g) \<longrightarrow>
          obj_get g ''latitude'' =
            Some (case truthy_num_opt (GPSLatitude t) of Some n \<Rightarrow> JNum n | None \<Rightarrow> JNull)
        \<and> obj_get g ''longitude'' =
            Some (case truthy_num_opt (GPSLongitude t) of Some n \<Rightarrow> JNum n | None \<Rightarrow> JNull)
        \<and> obj_get g ''altitude'' =
            Some (case truthy_num_opt (GPSAltitude t) of Some n \<Rightarrow> JNum n | None \<Rightarrow> JNull)
        \<and> obj_get g ''latitudeRef'' =
            Some (case truthy_str_opt (GPSLatitudeRef t) of Some s \<Rightarrow> JStr s | None \<Rightarrow> JNull)
        \<and> obj_get g ''longitudeRef'' =
            Some (case truthy_str_opt (GPSLongitudeRef t) of Some s \<Rightarrow> JStr s | None \<Rightarrow> JNull))"
proof (cases "tags ed")
  case None
  from cleaned_gps_no_tags [OF None assms] None show ?thesis by simp
next
  case (Some t)
  show ?thesis
    using cleaned_groups(4) [OF Some assms] Some
    by (auto simp: gps_wanted_def gps_group_get num_or_null_cases)
qed

lemma sea_level_output:
  "normalize_exif plain_locale default_params ''photo.jpg'' 0 (tagged sea_level_tags) =
     Inr [(''fileInfo'', fileInfo_value plain_locale ''photo.jpg'' 0), (''imageSize'', JNull),
          (''gps'', JObj [(''latitude'', JNum (Fin (407 / 10))),
                          (''longitude'', JNum (Fin (- 74))),
                          (''altitude'', JNull), (''latitudeRef'', JNull),
                          (''longitudeRef'', JNull)]),
          (''timestamp'', JNull),
          (''raw'', exif_value (tagged sea_level_tags))]"
proof -
  have g: "gps_group sea_level_tags =
      [(''latitude'', JNum (Fin (407 / 10))), (''longitude'', JNum (Fin (- 74))),
       (''altitude'', JNull), (''latitudeRef'', JNull), (''longitudeRef'', JNull)]"
    by (simp add: sea_level_tags_def no_tags_def gps_group_def decimal_entry_def num_or_null_def
        str_or_null_def truthy_num_opt_def truthy_str_opt_def truthy_str_def set_when_def)
  have o: "camera_group sea_level_tags = []" "lens_group sea_level_tags = []"
    "exposure_group sea_level_tags = []" "gps_wanted default_params sea_level_tags"
    "timestamp_field plain_locale default_params sea_level_tags = Inr None"
    by (simp_all add: sea_level_tags_def no_tags_def default_params_def group_defs)
  show ?thesis
    unfolding normalize_tagged g
    by (simp add: o assembled_def cleanup_def fileInfo_nonempty exif_value_nonempty)
qed

theorem gps_group_spec_witness:
  "\<exists>c g. normalize_exif plain_locale default_params ''photo.jpg'' 0 (tagged sea_level_tags) = Inr c
     \<and> obj_get c ''gps'' = Some (JObj g)
     \<and> obj_get g ''latitude'' = Some (JNum (Fin (407 / 10)))
     \<and> obj_get g ''altitude'' = Some JNull
     \<and> obj_get g ''longitudeRef'' = Some JNull"
proof -
  let ?g = "[(''latitude'', JNum (Fin (407 / 10))), (''longitude'', JNum (Fin (- 74))),
       (''altitude'', JNull), (''latitudeRef'', JNull), (''longitudeRef'', JNull)]"
  have c: "obj_get [(''fileInfo'', fileInfo_value plain_locale ''photo.jpg'' 0), (''imageSize'', JNull),
          (''gps'', JObj ?g), (''timestamp'', JNull),
          (''raw'', exif_value (tagged sea_level_tags))] ''gps'' = Some (JObj ?g)"
    by (simp add: obj_get_def)
  have t: "truthy_num_opt (GPSLatitude sea_level_tags) = Some (Fin (407 / 10))"
    "truthy_num_opt (GPSAltitude sea_level_tags) = None"
    "truthy_str_opt (GPSLongitudeRef sea_level_tags) = None"
    by (simp_all add: sea_level_tags_def no_tags_def truthy_num_opt_def truthy_str_opt_def)
  from gps_group_spec [OF sea_level_output] tags_tagged [of sea_level_tags] c
  have "obj_get ?g ''latitude'' =
      Some (case truthy_num_opt (GPSLatitude sea_level_tags) of Some n \<Rightarrow> JNum n | None \<Rightarrow> JNull)"
    and "obj_get ?g ''altitude'' =
      Some (case truthy_num_opt (GPSAltitude sea_level_tags) of Some n \<Rightarrow> JNum n | None \<Rightarrow> JNull)"
    and "obj_get ?g ''longitudeRef'' =
      Some (case truthy_str_opt (GPSLongitudeRef sea_level_tags) of Some s \<Rightarrow> JStr s | None \<Rightarrow> JNull)"
    by blast+
  then have "obj_get ?g ''latitude'' = Some (JNum (Fin (407 / 10)))"
    and "obj_get ?g ''altitude'' = Some JNull" and "obj_get ?g ''longitudeRef'' = Some JNull"
    unfolding t by simp_all
  with sea_level_output c show ?thesis by blast
qed

text \<open>
  C5 as stated fails for a field that is there with a falsy value: an altitude of 0 is
  not copied, the group has \<open>altitude: null\<close>.
\<close>

theorem gps_altitude_zero_counterexample:
  "GPSAltitude sea_level_tags = Some (Fin 0)
   \<and> obj_get (gps_group sea_level_tags) ''altitude'' = Some JNull
   \<and> normalize_exif plain_locale default_params ''photo.jpg'' 0 (tagged sea_level_tags) =
     Inr [(''fileInfo'', fileInfo_value plain_locale ''photo.jpg'' 0), (''imageSize'', JNull),
          (''gps'', JObj [(''latitude'', JNum (Fin (407 / 10))),
                          (''longitude'', JNum (Fin (- 74))),
                          (''altitude'', JNull), (''latitudeRef'', JNull),
                          (''longitudeRef'', JNull)]),
          (''timestamp'', JNull),
          (''raw'', exif_value (tagged sea_level_tags))]"
proof -
  have a: "GPSAltitude sea_level_tags = Some (Fin 0)"
    by (simp add: sea_level_tags_def no_tags_def)
  have g: "obj_get (gps_group sea_level_tags) ''altitude'' = Some JNull"
    by (simp add: gps_group_get num_or_null_def truthy_num_opt_def a)
  from a g sea_level_output show ?thesis by blast
qed


section \<open>The loop over the items\<close>

lemma upt_step: "i < n \<Longrightarrow> [i..<n] = i # [Suc i..<n]"
  by (rule upt_conv_Cons)

lemma execute_loop_continue:
  "continueOnFail e \<Longrightarrow>
   execute_loop e items i rd = Inr (rd @ map (item_result e items) [i..<length items])"
proof (induction e items i rd rule: execute_loop.induct)
  case (1 e items i rd)
  show ?case
  proof (cases "i < length items")
    case False
    then show ?thesis by (subst execute_loop.simps) simp
  next
    case True
    show ?thesis
    proof (cases "processItem e items i")
      case (Inl err)
      from "1.IH"(1) [OF True Inl "1.prems" "1.prems"] True Inl "1.prems" show ?thesis
        by (subst execute_loop.simps) (simp add: upt_step item_result_def)
    next
      case (Inr out)
      from "1.IH"(2) [OF True Inr "1.prems"] True Inr show ?thesis
        by (subst execute_loop.simps) (simp add: upt_step item_result_def)
    qed
  qed
qed

lemma execute_loop_all_ok:
  "\<forall>k. i \<le> k \<and> k < length items \<longrightarrow> (\<exists>out. processItem e items k = Inr out) \<Longrightarrow>
   execute_loop e items i rd = Inr (rd @ map (item_result e items) [i..<length items])"
proof (induction e items i rd rule: execute_loop.induct)
  case (1 e items i rd)
  show ?case
  proof (cases "i < length items")
    case False
    then show ?thesis by (subst execute_loop.simps) simp
  next
    case True
    with "1.prems" obtain out where out: "processItem e items i = Inr out" by auto
    have "\<forall>k. Suc i \<le> k \<and> k < length items \<longrightarrow> (\<exists>out. processItem e items k = Inr out)"
      using "1.prems" by auto
    from "1.IH"(2) [OF True out this] True out show ?thesis
      by (subst execute_loop.simps) (simp add: upt_step item_result_def)
  qed
qed

lemma execute_loop_abort:
  "\<not> continueOnFail e \<Longrightarrow> i \<le> j \<Longrightarrow> j < length items \<Longrightarrow> processItem e items j = Inl err \<Longrightarrow>
   \<forall>k. i \<le> k \<and> k < j \<longrightarrow> (\<exists>out. processItem e items k = Inr out) \<Longrightarrow>
   execute_loop e items i rd = Inl (rethrow e j err)"
proof (induction e items i rd rule: execute_loop.induct)
  case (1 e items i rd)
  from "1.prems"(2,3) have il: "i < length items" by simp
  show ?case
  proof (cases "i = j")
    case True
    with "1.prems" il show ?thesis by (subst execute_loop.simps) simp
  next
    case False
    with "1.prems"(2) have lt: "i < j" by simp
    with "1.prems"(5) obtain out where out: "processItem e items i = Inr out" by auto
    have "\<forall>k. Suc i \<le> k \<and> k < j \<longrightarrow> (\<exists>out. processItem e items k = Inr out)"
      using "1.prems"(5) by auto
    from "1.IH"(2) [OF il out "1.prems"(1) _ "1.prems"(3,4) this] lt il out show ?thesis
      by (subst execute_loop.simps) simp
  qed
qed

lemma first_failure:
  assumes "j < length items" and "processItem e items j = Inl err"
  obtains j0 err0 where "j0 \<le> j" and "processItem e items j0 = Inl err0"
    and "\<forall>k<j0. \<exists>out. processItem e items k = Inr out"
proof -
  define P where "P k \<longleftrightarrow> (\<exists>x. processItem e items k = Inl x)" for k
  define j0 where "j0 = (LEAST k. P k)"
  have Pj: "P j" using assms(2) by (auto simp: P_def)
  then have "P j0" unfolding j0_def by (rule LeastI)
  then obtain err0 where e: "processItem e items j0 = Inl err0" by (auto simp: P_def)
  have le: "j0 \<le> j" unfolding j0_def using Pj by (rule Least_le)
  have "\<forall>k<j0. \<exists>out. processItem e items k = Inr out"
  proof (intro allI impI)
    fix k assume "k < j0"
    then have "\<not> P k" unfolding j0_def by (rule not_less_Least)
    then show "\<exists>out. processItem e items k = Inr out"
      unfolding P_def by (cases "processItem e items k") auto
  qed
  with le e show ?thesis by (rule that)
qed

lemma execute_fails:
  assumes "\<not> continueOnFail e" and "j < length items" and "processItem e items j = Inl err"
  shows "\<exists>err'. execute e items = Inl err'"
proof -
  from assms(2,3) obtain j0 err0 where j0: "j0 \<le> j" "processItem e items j0 = Inl err0"
    "\<forall>k<j0. \<exists>out. processItem e items k = Inr out"
    by (rule first_failure)
  from j0(1) assms(2) have "j0 < length items" by simp
  from execute_loop_abort [OF assms(1) _ this j0(2), of 0 "[]"] j0(3)
  show ?thesis by (simp add: execute_def)
qed

lemma execute_returns:
  assumes "execute e items = Inr r"
  shows "r = [map (item_result e items) [0..<length items]]"
proof (cases "continueOnFail e")
  case True
  from assms show ?thesis by (simp add: execute_def execute_loop_continue [OF True])
next
  case False
  have "\<forall>k. 0 \<le> k \<and> k < length items \<longrightarrow> (\<exists>out. processItem e items k = Inr out)"
  proof (intro allI impI)
    fix k assume k: "0 \<le> k \<and> k < length items"
    show "\<exists>out. processItem e items k = Inr out"
    proof (cases "processItem e items k")
      case (Inl err)
      from execute_fails [OF False _ Inl] k assms show ?thesis by auto
    next
      case (Inr out)
      then show ?thesis by blast
    qed
  qed
  from execute_loop_all_ok [OF this, of "[]"] assms show ?thesis
    by (simp add: execute_def)
qed

lemma rethrow_cases:
  "error_context err = Some c \<Longrightarrow>
     rethrow e j err = err\<lparr>error_context := Some (c\<lparr>itemIndex := Some j\<rparr>)\<rparr>"
  "error_context err = None \<Longrightarrow>
     rethrow e j err = NodeOperationError (errorMessage e) (message err) j"
  by (simp_all add: rethrow_def)

lemma context_rethrow: "\<exists>c. error_context (rethrow e j err) = Some c \<and> itemIndex c = Some j"
  by (cases "error_context err") (simp_all add: rethrow_def NodeOperationError_def)


section \<open>The example host\<close>

lemma upt_0_2: "[0..<2] = [0, Suc 0]"
  by (simp add: numeral_2_eq_2)

lemma example_fails:
  "processItem (example_env b) [mislabeled_item, photo_item] 0 = Inl (no_binary_error 0)"
  "processItem (example_env b) [photo_item, mislabeled_item] (Suc 0) = Inl (no_binary_error (Suc 0))"
  by (simp_all add: processItem_def imageBuffer_def binaryData_of_def example_env_def
      default_params_def mislabeled_item_def no_binary_error_def NodeOperationError_def)

lemma example_normalize:
  "normalize_exif plain_locale default_params ''photo.jpg'' 2 (tagged no_tags) =
     Inr [(''fileInfo'', fileInfo_value plain_locale ''photo.jpg'' 2), (''imageSize'', JNull),
      (''gps'', JNull), (''timestamp'', JNull), (''raw'', exif_value (tagged no_tags))]"
proof -
  have k: "no_recognized_keys no_tags" by (simp add: no_recognized_keys_def no_tags_def)
  show ?thesis
    unfolding normalize_tagged
    by (simp add: no_recognized_groups [OF k] assembled_def cleanup_def fileInfo_nonempty exif_value_nonempty)
qed

lemma example_file:
  "fileName_of (example_env b) [mislabeled_item, photo_item] (Suc 0) = ''photo.jpg''"
  "fileName_of (example_env b) [photo_item, mislabeled_item] 0 = ''photo.jpg''"
  by (simp_all add: fileName_of_def binaryData_of_def example_env_def default_params_def
      photo_item_def jpeg_data_def truthy_str_opt_def truthy_str_def)

lemma example_succeeds:
  "processItem (example_env b) [mislabeled_item, photo_item] (Suc 0) =
     Inr \<lparr>json = [(''id'', JNum (Fin 1)), (''exif'', plain_exif)], binary = None, pairedItem = None\<rparr>"
  "processItem (example_env b) [photo_item, mislabeled_item] 0 =
     Inr \<lparr>json = [(''id'', JNum (Fin 1)), (''exif'', plain_exif)], binary = None, pairedItem = None\<rparr>"
proof -
  have e: "getNodeParameter (example_env b) i = default_params"
    "parse (example_env b) buf = Inr (tagged no_tags)"
    "runtime (example_env b) = plain_locale"
    for i buf
    by (simp_all add: example_env_def)
  have i: "imageBuffer (example_env b) [mislabeled_item, photo_item] (Suc 0) = Inr [0xFF, 0xD8]"
    "imageBuffer (example_env b) [photo_item, mislabeled_item] 0 = Inr [0xFF, 0xD8]"
    by (simp_all add: imageBuffer_def binaryData_of_def example_env_def default_params_def
        photo_item_def)
  have l: "length [0xFF, 0xD8 :: 8 word] = 2" by simp
  have o: "outputProperty default_params = ''exif''" by (simp add: default_params_def)
  have j: "json photo_item = [(''id'', JNum (Fin 1))]" by (simp add: photo_item_def)
  show "processItem (example_env b) [mislabeled_item, photo_item] (Suc 0) =
     Inr \<lparr>json = [(''id'', JNum (Fin 1)), (''exif'', plain_exif)], binary = None, pairedItem = None\<rparr>"
    unfolding processItem_def Let_def e i example_file sum.case l example_normalize
    by (simp add: o j plain_exif_def)
  show "processItem (example_env b) [photo_item, mislabeled_item] 0 =
     Inr \<lparr>json = [(''id'', JNum (Fin 1)), (''exif'', plain_exif)], binary = None, pairedItem = None\<rparr>"
    unfolding processItem_def Let_def e i example_file sum.case l example_normalize
    by (simp add: o j plain_exif_def)
qed

lemma example_run:
  "execute (example_env True) [mislabeled_item, photo_item] =
     Inr [[\<lparr>json = [(''id'', JNum (Fin 2)), (''error'', JStr (message (no_binary_error 0)))],
            binary = Some [(''image'', jpeg_data)], pairedItem = Some 0\<rparr>,
           \<lparr>json = [(''id'', JNum (Fin 1)), (''exif'', plain_exif)],
            binary = None, pairedItem = None\<rparr>]]"
proof -
  have c: "continueOnFail (example_env True)" by (simp add: example_env_def)
  have m: "errorItem [mislabeled_item, photo_item] 0 (no_binary_error 0) =
      \<lparr>json = [(''id'', JNum (Fin 2)), (''error'', JStr (message (no_binary_error 0)))],
       binary = Some [(''image'', jpeg_data)], pairedItem = Some 0\<rparr>"
    by (simp add: errorItem_def mislabeled_item_def)
  show ?thesis
    unfolding execute_def execute_loop_continue [OF c]
    by (simp add: upt_0_2 item_result_def example_fails example_succeeds m)
qed


lemma nth_results:
  "i < length items \<Longrightarrow> map (item_result e items) [0..<length items] ! i = item_result e items i"
  by simp

section \<open>C8: an item that fails\<close>

text \<open>
  C8. Let item \<open>j\<close> fail with the error \<open>err\<close>. In continue-on-fail mode the node
  returns one item for every input item; the one for \<open>j\<close> has the \<open>json\<close> fields of item
  \<open>j\<close> with \<open>error\<close> set to the message (every other field as it was, and nothing
  of the structured metadata), the \<open>binary\<close> of item \<open>j\<close>, and \<open>pairedItem\<close> \<open>j\<close>;
  the items after \<open>j\<close> are processed as usual. Otherwise the node returns no item at
  all: it throws, and when \<open>j\<close> is the first item to fail, what it throws has \<open>j\<close>
  as the \<open>itemIndex\<close> of its context, whatever the items after \<open>j\<close> are: it is
  \<open>err\<close> itself with the index written into its context when \<open>err\<close> has a context,
  and otherwise a NodeOperationError made from \<open>err\<close> (with the message that its
  constructor makes of the message of \<open>err\<close>).
\<close>

theorem failed_item_spec:
  assumes "j < length items" and "processItem e items j = Inl err"
  shows "(continueOnFail e \<longrightarrow>
      (\<exists>outs. execute e items = Inr [outs] \<and> length outs = length items
         \<and> outs ! j = \<lparr>json = obj_set ''error'' (JStr (message err)) (json (items ! j)),
                        binary = binary (items ! j), pairedItem = Some j\<rparr>
         \<and> obj_get (json (outs ! j)) ''error'' = Some (JStr (message err))
         \<and> (\<forall>k. k \<noteq> ''error'' \<longrightarrow> obj_get (json (outs ! j)) k = obj_get (json (items ! j)) k)
         \<and> (\<forall>i. j < i \<and> i < length items \<longrightarrow> outs ! i = item_result e items i)))
    \<and> (\<not> continueOnFail e \<longrightarrow>
         (\<exists>err'. execute e items = Inl err')
         \<and> ((\<forall>k<j. \<exists>out. processItem e items k = Inr out) \<longrightarrow>
              execute e items = Inl (rethrow e j err)
              \<and> (\<exists>c. error_context (rethrow e j err) = Some c \<and> itemIndex c = Some j)
              \<and> (\<forall>c. error_context err = Some c \<longrightarrow>
                    rethrow e j err = err\<lparr>error_context := Some (c\<lparr>itemIndex := Some j\<rparr>)\<rparr>)
              \<and> (error_context err = None \<longrightarrow>
                    rethrow e j err = NodeOperationError (errorMessage e) (message err) j)))"
proof (intro conjI impI)
  assume c: "continueOnFail e"
  let ?outs = "map (item_result e items) [0..<length items]"
  have r: "execute e items = Inr [?outs]"
    by (simp add: execute_def execute_loop_continue [OF c])
  have j: "?outs ! j = \<lparr>json = obj_set ''error'' (JStr (message err)) (json (items ! j)),
                        binary = binary (items ! j), pairedItem = Some j\<rparr>"
    using assms by (simp add: item_result_def errorItem_def)
  have g: "obj_get (json (?outs ! j)) ''error'' = Some (JStr (message err))"
    "\<forall>k. k \<noteq> ''error'' \<longrightarrow> obj_get (json (?outs ! j)) k = obj_get (json (items ! j)) k"
    unfolding j by (simp_all add: obj_get_obj_set)
  have a: "\<forall>i. j < i \<and> i < length items \<longrightarrow> ?outs ! i = item_result e items i"
    by simp
  from r j g a show "\<exists>outs. execute e items = Inr [outs] \<and> length outs = length items
         \<and> outs ! j = \<lparr>json = obj_set ''error'' (JStr (message err)) (json (items ! j)),
                        binary = binary (items ! j), pairedItem = Some j\<rparr>
         \<and> obj_get (json (outs ! j)) ''error'' = Some (JStr (message err))
         \<and> (\<forall>k. k \<noteq> ''error'' \<longrightarrow> obj_get (json (outs ! j)) k = obj_get (json (items ! j)) k)
         \<and> (\<forall>i. j < i \<and> i < length items \<longrightarrow> outs ! i = item_result e items i)"
    by (intro exI [of _ ?outs] conjI) simp_all
next
  assume n: "\<not> continueOnFail e"
  from execute_fails [OF n assms] show "\<exists>err'. execute e items = Inl err'" .
next
  assume n: "\<not> continueOnFail e" and f: "\<forall>k<j. \<exists>out. processItem e items k = Inr out"
  from execute_loop_abort [OF n _ assms, of 0 "[]"] f
  show "execute e items = Inl (rethrow e j err)" by (simp add: execute_def)
next
  show "\<exists>c. error_context (rethrow e j err) = Some c \<and> itemIndex c = Some j"
    by (rule context_rethrow)
next
  show "\<forall>c. error_context err = Some c \<longrightarrow>
      rethrow e j err = err\<lparr>error_context := Some (c\<lparr>itemIndex := Some j\<rparr>)\<rparr>"
    by (simp add: rethrow_cases)
next
  assume "error_context err = None"
  then show "rethrow e j err = NodeOperationError (errorMessage e) (message err) j"
    by (rule rethrow_cases)
qed

theorem failed_item_spec_witness:
  "(\<exists>outs. execute (example_env True) [mislabeled_item, photo_item] = Inr [outs]
      \<and> length outs = 2
      \<and> obj_get (json (outs ! 0)) ''error'' = Some (JStr (message (no_binary_error 0)))
      \<and> obj_get (json (outs ! 0)) ''id'' = Some (JNum (Fin 2))
      \<and> binary (outs ! 0) = Some [(''image'', jpeg_data)])
   \<and> execute (example_env False) [photo_item, mislabeled_item] = Inl (no_binary_error (Suc 0))"
proof -
  have c: "continueOnFail (example_env True)" "\<not> continueOnFail (example_env False)"
    by (simp_all add: example_env_def)
  have l: "0 < length [mislabeled_item, photo_item]" "Suc 0 < length [photo_item, mislabeled_item]"
    by simp_all
  from failed_item_spec [OF l(1) example_fails(1), of True] c(1)
  obtain outs where o: "execute (example_env True) [mislabeled_item, photo_item] = Inr [outs]"
    "length outs = length [mislabeled_item, photo_item]"
    "obj_get (json (outs ! 0)) ''error'' = Some (JStr (message (no_binary_error 0)))"
    "\<forall>k. k \<noteq> ''error'' \<longrightarrow>
       obj_get (json (outs ! 0)) k = obj_get (json ([mislabeled_item, photo_item] ! 0)) k"
    "outs ! 0 = \<lparr>json = obj_set ''error'' (JStr (message (no_binary_error 0)))
                    (json ([mislabeled_item, photo_item] ! 0)),
                 binary = binary ([mislabeled_item, photo_item] ! 0), pairedItem = Some 0\<rparr>"
    by blast
  from o(4) have i: "obj_get (json (outs ! 0)) ''id'' = Some (JNum (Fin 2))"
    by (simp add: mislabeled_item_def obj_get_def)
  from o(5) have b: "binary (outs ! 0) = Some [(''image'', jpeg_data)]"
    by (simp add: mislabeled_item_def)
  have 1: "\<exists>outs. execute (example_env True) [mislabeled_item, photo_item] = Inr [outs]
      \<and> length outs = 2
      \<and> obj_get (json (outs ! 0)) ''error'' = Some (JStr (message (no_binary_error 0)))
      \<and> obj_get (json (outs ! 0)) ''id'' = Some (JNum (Fin 2))
      \<and> binary (outs ! 0) = Some [(''image'', jpeg_data)]"
    using o(1,2,3) i b by (intro exI [of _ outs]) simp
  have f: "\<forall>k<Suc 0. \<exists>out. processItem (example_env False) [photo_item, mislabeled_item] k = Inr out"
    by (simp add: example_succeeds)
  from failed_item_spec [OF l(2) example_fails(2), of False] c(2) f
  have "execute (example_env False) [photo_item, mislabeled_item] =
      Inl (rethrow (example_env False) (Suc 0) (no_binary_error (Suc 0)))"
    by blast
  then have 2: "execute (example_env False) [photo_item, mislabeled_item] = Inl (no_binary_error (Suc 0))"
    by (simp add: rethrow_def no_binary_error_def)
  from 1 2 show ?thesis by (rule conjI)
qed

section \<open>C9 and C10: an item that succeeds\<close>

lemma processItem_Inr:
  assumes "processItem e items i = Inr out"
  obtains buf exifData s where "imageBuffer e items i = Inr buf" and "parse e buf = Inr exifData"
    and "normalize_exif (runtime e) (getNodeParameter e i) (fileName_of e items i)
           (length buf) exifData = Inr s"
    and "out = \<lparr>json = obj_set (outputProperty (getNodeParameter e i)) (JObj s) (json (items ! i)),
                binary = None, pairedItem = None\<rparr>"
  using assms unfolding processItem_def Let_def
  by (auto split: sum.splits)



text \<open>
  C10. In what \<open>execute\<close> returns, the item of an input item processed successfully has
  no \<open>binary\<close> property, whatever the input item carried; an item with a \<open>binary\<close>
  property can only be the item of a failure in continue-on-fail mode, and then it is the
  \<open>binary\<close> of the input item.
\<close>

theorem binary_dropped_spec:
  assumes "i < length items" and "execute e items = Inr [outs]"
  shows "(\<forall>out. processItem e items i = Inr out \<longrightarrow> outs ! i = out \<and> binary (outs ! i) = None)
    \<and> (\<forall>err. processItem e items i = Inl err \<longrightarrow>
          continueOnFail e \<and> binary (outs ! i) = binary (items ! i))
    \<and> (binary (outs ! i) \<noteq> None \<longrightarrow>
          continueOnFail e \<and> (\<exists>err. processItem e items i = Inl err))"
proof -
  from execute_returns [OF assms(2)] assms(1)
  have o: "outs ! i = item_result e items i" by simp
  have 1: "\<forall>out. processItem e items i = Inr out \<longrightarrow> outs ! i = out \<and> binary (outs ! i) = None"
  proof (intro allI impI)
    fix out assume p: "processItem e items i = Inr out"
    then have "binary out = None" by (elim processItem_Inr) simp
    with p o show "outs ! i = out \<and> binary (outs ! i) = None" by (simp add: item_result_def)
  qed
  have 2: "\<forall>err. processItem e items i = Inl err \<longrightarrow>
          continueOnFail e \<and> binary (outs ! i) = binary (items ! i)"
  proof (intro allI impI)
    fix err assume p: "processItem e items i = Inl err"
    have "continueOnFail e"
    proof (rule ccontr)
      assume "\<not> continueOnFail e"
      from execute_fails [OF this assms(1) p] assms(2) show False by simp
    qed
    with p o show "continueOnFail e \<and> binary (outs ! i) = binary (items ! i)"
      by (simp add: item_result_def errorItem_def)
  qed
  have 3: "binary (outs ! i) \<noteq> None \<longrightarrow>
          continueOnFail e \<and> (\<exists>err. processItem e items i = Inl err)"
    using 1 2 by (cases "processItem e items i") auto
  from 1 2 3 show ?thesis by blast
qed

theorem binary_dropped_spec_witness:
  "\<exists>outs. execute (example_env True) [mislabeled_item, photo_item] = Inr [outs]
     \<and> binary ([mislabeled_item, photo_item] ! Suc 0) = Some [(''data'', jpeg_data)]
     \<and> binary (outs ! Suc 0) = None
     \<and> binary (outs ! 0) = Some [(''image'', jpeg_data)]"
proof -
  have l: "Suc 0 < length [mislabeled_item, photo_item]" "0 < length [mislabeled_item, photo_item]"
    by simp_all
  let ?outs = "[\<lparr>json = [(''id'', JNum (Fin 2)), (''error'', JStr (message (no_binary_error 0)))],
            binary = Some [(''image'', jpeg_data)], pairedItem = Some 0\<rparr>,
           \<lparr>json = [(''id'', JNum (Fin 1)), (''exif'', plain_exif)],
            binary = None, pairedItem = None\<rparr>]"
  from binary_dropped_spec [OF l(1) example_run] example_succeeds(1) [of True]
  have 1: "binary (?outs ! Suc 0) = None" by blast
  from binary_dropped_spec [OF l(2) example_run] example_fails(1) [of True]
  have "binary (?outs ! 0) = binary ([mislabeled_item, photo_item] ! 0)" by blast
  then have 2: "binary (?outs ! 0) = Some [(''image'', jpeg_data)]"
    by (simp add: mislabeled_item_def)
  have 3: "binary ([mislabeled_item, photo_item] ! Suc 0) = Some [(''data'', jpeg_data)]"
    by (simp add: photo_item_def)
  from example_run 1 2 3 show ?thesis by blast
qed


end
